theory Spec2Isabelle
  imports Main "HOL-Library.Word"
begin

section \<open>The reduce-array-dim pass of clang\_delta (ReduceArrayDim.cpp)\<close>

text \<open>
  The pass merges the last two dimensions of one array variable and linearises the two
  trailing indices of every subscript chain on it. This theory embeds the functions of
  \<^verbatim>\<open>ReduceArrayDim.cpp\<close>: the state of the \<^verbatim>\<open>ReduceArrayDim\<close> object is a record that is
  passed along, a failing \<^verbatim>\<open>TransAssert\<close> is the left summand of the result, \<^verbatim>\<open>unsigned\<close>
  and \<^verbatim>\<open>int\<close> are 32-bit words, and source text is a list of characters addressed by
  offsets, as the source locations of the original are.
\<close>

subsection \<open>Machine integers and their decimal text\<close>

type_synonym unsigned = "32 word"
type_synonym cint = "32 word"

text \<open>The digits that \<^verbatim>\<open>operator<<\<close> of a \<^verbatim>\<open>std::stringstream\<close> writes for a number.\<close>

definition digit_char :: "nat \<Rightarrow> char" where
  "digit_char d = ''0123456789'' ! d"

fun show_nat :: "nat \<Rightarrow> string" where
  "show_nat n = (if n < 10 then [digit_char n] else show_nat (n div 10) @ [digit_char (n mod 10)])"

declare show_nat.simps [simp del]

definition show_int :: "int \<Rightarrow> string" where
  "show_int i = (if i < 0 then CHR ''-'' # show_nat (nat (- i)) else show_nat (nat i))"

text \<open>\<^verbatim>\<open>TmpSS << u\<close> for an \<^verbatim>\<open>unsigned u\<close>, and \<^verbatim>\<open>TmpSS << i\<close> for an \<^verbatim>\<open>int i\<close>.\<close>

definition show_unsigned :: "unsigned \<Rightarrow> string" where
  "show_unsigned u = show_nat (unat u)"

definition show_cint :: "cint \<Rightarrow> string" where
  "show_cint i = show_int (sint i)"

subsection \<open>Types of the syntax tree\<close>

text \<open>
  The array types of the host compiler, nested from the outermost dimension inwards. The
  extent of a \<open>ConstantArrayType\<close> is held as the \<^verbatim>\<open>unsigned\<close> that \<^verbatim>\<open>getConstArraySize\<close>
  hands to the pass.
\<close>

datatype QualType =
    BuiltinType
  | PointerType QualType
  | StructType
  | UnionType
  | ConstantArrayType unsigned QualType
  | IncompleteArrayType QualType
  | VariableArrayType QualType
  | DependentSizedArrayType QualType
  | OtherType

fun isArrayType :: "QualType \<Rightarrow> bool" where
  "isArrayType (ConstantArrayType n T) = True"
| "isArrayType (IncompleteArrayType T) = True"
| "isArrayType (VariableArrayType T) = True"
| "isArrayType (DependentSizedArrayType T) = True"
| "isArrayType T = False"

fun isConstantArrayType :: "QualType \<Rightarrow> bool" where
  "isConstantArrayType (ConstantArrayType n T) = True"
| "isConstantArrayType T = False"

fun isIncompleteArrayType :: "QualType \<Rightarrow> bool" where
  "isIncompleteArrayType (IncompleteArrayType T) = True"
| "isIncompleteArrayType T = False"

fun isVariableArrayType :: "QualType \<Rightarrow> bool" where
  "isVariableArrayType (VariableArrayType T) = True"
| "isVariableArrayType T = False"

fun isDependentSizedArrayType :: "QualType \<Rightarrow> bool" where
  "isDependentSizedArrayType (DependentSizedArrayType T) = True"
| "isDependentSizedArrayType T = False"

fun isScalarType :: "QualType \<Rightarrow> bool" where
  "isScalarType BuiltinType = True"
| "isScalarType (PointerType T) = True"
| "isScalarType T = False"

fun isStructureType :: "QualType \<Rightarrow> bool" where
  "isStructureType StructType = True"
| "isStructureType T = False"

fun isUnionType :: "QualType \<Rightarrow> bool" where
  "isUnionType UnionType = True"
| "isUnionType T = False"

text \<open>
  Modelled from the spec: \<^verbatim>\<open>getArrayDimensionAndTypes\<close>, \<^verbatim>\<open>getArrayDimension\<close> and
  \<^verbatim>\<open>getConstArraySize\<close> of the base class \<^verbatim>\<open>Transformation\<close>, which is not part of the
  file. The decomposer peels one array layer at a time until a non-array element type is
  reached and lists the layers from the outermost to the innermost.
\<close>

fun getArrayDimensionAndTypes :: "QualType \<Rightarrow> QualType list" where
  "getArrayDimensionAndTypes (ConstantArrayType n T) =
     ConstantArrayType n T # getArrayDimensionAndTypes T"
| "getArrayDimensionAndTypes (IncompleteArrayType T) =
     IncompleteArrayType T # getArrayDimensionAndTypes T"
| "getArrayDimensionAndTypes (VariableArrayType T) =
     VariableArrayType T # getArrayDimensionAndTypes T"
| "getArrayDimensionAndTypes (DependentSizedArrayType T) =
     DependentSizedArrayType T # getArrayDimensionAndTypes T"
| "getArrayDimensionAndTypes T = []"

definition getArrayDimension :: "QualType \<Rightarrow> nat" where
  "getArrayDimension T = length (getArrayDimensionAndTypes T)"

fun getConstArraySize :: "QualType \<Rightarrow> unsigned" where
  "getConstArraySize (ConstantArrayType n T) = n"
| "getConstArraySize T = 0"

subsection \<open>Declarations and expressions\<close>

text \<open>
  A source location is an offset into the text of the translation unit. A source range
  runs from the first to the last character of a node, both included.
\<close>

type_synonym SourceLocation = nat
type_synonym SourceRange = "nat \<times> nat"

text \<open>
  A variable declaration: the identity of its canonical declaration (redeclarations of
  one variable share it), its type, and the location of the declared name.
\<close>

record VarDecl =
  getCanonicalDecl :: nat
  getType :: QualType
  getLocation :: SourceLocation

datatype ValueDecl = VarDeclRef VarDecl | OtherValueDecl

text \<open>
  A cast is to an integer type of a signedness and a width, or to anything else (the
  decay of an array to a pointer, the load of a value, a cast to a pointer).
\<close>

datatype CastKind = IntegralCast bool nat | OtherCast

datatype Expr =
    IntegerLiteral SourceRange int
  | CharacterLiteral SourceRange int
  | ParenExpr SourceRange Expr
  | CastExpr SourceRange CastKind Expr
  | DeclRefExpr SourceRange ValueDecl
  | ArraySubscriptExpr SourceRange QualType Expr Expr
  | OtherExpr SourceRange QualType "Expr list"

fun getSourceRange :: "Expr \<Rightarrow> SourceRange" where
  "getSourceRange (IntegerLiteral r v) = r"
| "getSourceRange (CharacterLiteral r v) = r"
| "getSourceRange (ParenExpr r e) = r"
| "getSourceRange (CastExpr r k e) = r"
| "getSourceRange (DeclRefExpr r d) = r"
| "getSourceRange (ArraySubscriptExpr r T b i) = r"
| "getSourceRange (OtherExpr r T es) = r"

fun IgnoreParenCasts :: "Expr \<Rightarrow> Expr" where
  "IgnoreParenCasts (ParenExpr r e) = IgnoreParenCasts e"
| "IgnoreParenCasts (CastExpr r k e) = IgnoreParenCasts e"
| "IgnoreParenCasts e = e"

text \<open>
  Modelled from the spec: the constant evaluation of the host compiler
  (\<^verbatim>\<open>Expr::EvaluateAsInt\<close>), for the integer and character literals, parentheses and
  integer casts that an index accepted by \<open>isIntegerExpr\<close> is made of. A cast to an integer
  type wraps the value to the width of that type.
\<close>

definition wrapInt :: "bool \<Rightarrow> nat \<Rightarrow> int \<Rightarrow> int" where
  "wrapInt sg w v =
     (if sg then (v + 2 ^ (w - 1)) mod 2 ^ w - 2 ^ (w - 1) else v mod 2 ^ w)"

fun EvaluateAsInt :: "Expr \<Rightarrow> int option" where
  "EvaluateAsInt (IntegerLiteral r v) = Some v"
| "EvaluateAsInt (CharacterLiteral r v) = Some v"
| "EvaluateAsInt (ParenExpr r e) = EvaluateAsInt e"
| "EvaluateAsInt (CastExpr r (IntegralCast sg w) e) =
     map_option (wrapInt sg w) (EvaluateAsInt e)"
| "EvaluateAsInt (CastExpr r OtherCast e) = None"
| "EvaluateAsInt e = None"

text \<open>
  Modelled from the spec: \<^verbatim>\<open>getBaseExprAndIdxExprs\<close> of the base class. It walks a nested
  chain of subscript operations from the outermost node to the base, looking through
  parentheses and casts around each base, and collects the index of every node on the
  way: the first index of the result is the trailing one of the source text. The base is
  absent (a null pointer) when the walk starts at no subscript node.
\<close>

fun walkSubscripts :: "Expr \<Rightarrow> Expr \<times> Expr list" where
  "walkSubscripts (ArraySubscriptExpr r T b i) =
     (let (BaseE, IdxExprs) = walkSubscripts b in (BaseE, i # IdxExprs))"
| "walkSubscripts (ParenExpr r e) = walkSubscripts e"
| "walkSubscripts (CastExpr r k e) = walkSubscripts e"
| "walkSubscripts e = (e, [])"

fun getBaseExprAndIdxExprs :: "Expr \<Rightarrow> Expr option \<times> Expr list" where
  "getBaseExprAndIdxExprs (ArraySubscriptExpr r T b i) =
     (let (BaseE, IdxExprs) = walkSubscripts b in (Some BaseE, i # IdxExprs))"
| "getBaseExprAndIdxExprs e = (None, [])"

text \<open>The type that the semantic analysis has stored in a subscript node.\<close>

fun getTypeOfExpr :: "Expr \<Rightarrow> QualType" where
  "getTypeOfExpr (ArraySubscriptExpr r T b i) = T"
| "getTypeOfExpr (OtherExpr r T es) = T"
| "getTypeOfExpr (DeclRefExpr r (VarDeclRef VD)) = getType VD"
| "getTypeOfExpr (ParenExpr r e) = getTypeOfExpr e"
| "getTypeOfExpr e = BuiltinType"

text \<open>
  The subscript nodes of an expression in the order in which the traversal of the syntax
  tree reaches them: a node before its children, the base before the index.
\<close>

fun subscriptNodes :: "Expr \<Rightarrow> Expr list" where
  "subscriptNodes (ArraySubscriptExpr r T b i) =
     ArraySubscriptExpr r T b i # subscriptNodes b @ subscriptNodes i"
| "subscriptNodes (ParenExpr r e) = subscriptNodes e"
| "subscriptNodes (CastExpr r k e) = subscriptNodes e"
| "subscriptNodes (OtherExpr r T es) = concat (map subscriptNodes es)"
| "subscriptNodes e = []"

text \<open>
  The nodes of one chain: the subscript nodes on the way from the outermost node to the
  base, the outermost first.
\<close>

fun chainNodes :: "Expr \<Rightarrow> Expr list" where
  "chainNodes (ArraySubscriptExpr r T b i) = ArraySubscriptExpr r T b i # chainNodes b"
| "chainNodes (ParenExpr r e) = chainNodes e"
| "chainNodes (CastExpr r k e) = chainNodes e"
| "chainNodes e = []"

subsection \<open>The text rewriter\<close>

text \<open>
  Modelled from the spec: the rewriting engine (\<^verbatim>\<open>Rewriter::RemoveText\<close> and
  \<^verbatim>\<open>Rewriter::ReplaceText\<close>), which is not part of the file. It removes and replaces
  ranges of the original text; every edit is addressed by offsets of the original text,
  whatever was edited before. The buffer therefore keeps one cell for each character of
  the original text, holding the text that stands for this character now; the rewritten
  text is the concatenation of the cells. A range of no character (its end just before
  its start) makes a replacement an insertion in front of the start.
\<close>

type_synonym RewriteBuffer = "string list"

definition initialBuffer :: "string \<Rightarrow> RewriteBuffer" where
  "initialBuffer src = map (\<lambda>c. [c]) src"

definition getRewrittenText :: "RewriteBuffer \<Rightarrow> string" where
  "getRewrittenText buf = concat buf"

definition getRangeSize :: "SourceRange \<Rightarrow> nat" where
  "getRangeSize r = Suc (snd r) - fst r"

definition ReplaceText :: "RewriteBuffer \<Rightarrow> SourceRange \<Rightarrow> string \<Rightarrow> RewriteBuffer" where
  "ReplaceText buf r NewStr =
     (let b = fst r; n = getRangeSize r
      in if n = 0
         then take b buf @ [NewStr @ concat (take 1 (drop b buf))] @ drop (Suc b) buf
         else take b buf @ [NewStr] @ replicate (n - 1) [] @ drop (b + n) buf)"

definition RemoveText :: "RewriteBuffer \<Rightarrow> SourceRange \<Rightarrow> RewriteBuffer" where
  "RemoveText buf r = take (fst r) buf @ replicate (getRangeSize r) [] @ drop (fst r + getRangeSize r) buf"

text \<open>
  Modelled from the spec: the helpers of \<^verbatim>\<open>RewriteUtils\<close>, which is not part of the file.
  \<open>getLocationUntil\<close> locates the next occurrence of a character at or after a location
  (the end of the text when there is none), \<open>getLocationBefore\<close> the last occurrence at
  or before one. \<open>removeArraySubscriptExpr\<close> deletes an index together with the brackets
  around it, \<open>replaceExpr\<close> replaces the text of an expression, and \<open>getExprString\<close>
  reads the original text of an expression.
\<close>

definition getLocationUntil :: "string \<Rightarrow> SourceLocation \<Rightarrow> char \<Rightarrow> SourceLocation" where
  "getLocationUntil src Loc Symbol = Loc + length (takeWhile (\<lambda>c. c \<noteq> Symbol) (drop Loc src))"

definition getLocationBefore :: "string \<Rightarrow> SourceLocation \<Rightarrow> char \<Rightarrow> SourceLocation" where
  "getLocationBefore src Loc Symbol =
     Loc - length (takeWhile (\<lambda>c. c \<noteq> Symbol) (rev (take (Suc Loc) src)))"

definition removeArraySubscriptExpr :: "string \<Rightarrow> RewriteBuffer \<Rightarrow> Expr \<Rightarrow> RewriteBuffer" where
  "removeArraySubscriptExpr src buf E =
     (let ERange = getSourceRange E;
          StartLoc = getLocationBefore src (fst ERange) (CHR ''['');
          EndLoc = getLocationUntil src (snd ERange + 1) (CHR '']'')
      in RemoveText buf (StartLoc, EndLoc))"

definition replaceExpr :: "RewriteBuffer \<Rightarrow> Expr \<Rightarrow> string \<Rightarrow> RewriteBuffer" where
  "replaceExpr buf E NewStr = ReplaceText buf (getSourceRange E) NewStr"

definition getExprString :: "string \<Rightarrow> Expr \<Rightarrow> string" where
  "getExprString src E =
     (let ERange = getSourceRange E in take (getRangeSize ERange) (drop (fst ERange) src))"

subsection \<open>The state of the pass\<close>

text \<open>
  The members of \<^verbatim>\<open>ReduceArrayDim\<close> and of its base class that the file reads and
  writes. A null \<^verbatim>\<open>TheVarDecl\<close> is \<open>None\<close>. The headers that declare the members are
  not part of the file: the two counters are integers, and \<^verbatim>\<open>ArraySz\<close>, which receives
  the result of \<^verbatim>\<open>getConstArraySize\<close> as the \<^verbatim>\<open>unsigned LastSz\<close> does, is an
  \<^verbatim>\<open>unsigned\<close>.
\<close>

datatype TransErrorKind = TransSuccess | TransInternalError | TransMaxInstanceError

record ReduceArrayDim =
  TransformationCounter :: int
  ValidInstanceNum :: int
  QueryInstanceOnly :: bool
  TransError :: TransErrorKind
  VisitedVarDecls :: "nat set"
  TheVarDecl :: "nat option"
  ArraySz :: unsigned
  TheRewriter :: RewriteBuffer

text \<open>
  Modelled from the spec: \<^verbatim>\<open>TransAssert\<close>, a macro of the base class. A violated
  assertion aborts the pass; the abort carries the message of the assertion.
\<close>

datatype Abort = TransAssertFailed string

text \<open>
  The translation unit as the pass sees it: the original text, the variable declarations
  and the expressions in the order of the traversal, and whether the diagnostics of the
  host compiler have recorded an error.
\<close>

datatype Node = VarDeclNode VarDecl | ExprNode Expr

record ASTContext =
  SrcText :: string
  TranslationUnitDecl :: "Node list"
  hasErrorOccurred :: bool
  hasFatalErrorOccurred :: bool

text \<open>
  Modelled from the spec: the state in which the constructors of the pass and of its base
  class (in the headers, which are not part of the file) leave the object before the
  collection starts: no candidate counted, no target, no error, an unedited buffer. The
  first value of \<^verbatim>\<open>ArraySz\<close> is not told by the file and is a parameter.
\<close>

definition Initialize :: "int \<Rightarrow> bool \<Rightarrow> unsigned \<Rightarrow> ASTContext \<Rightarrow> ReduceArrayDim" where
  "Initialize Counter QueryOnly Sz0 Ctx =
     \<lparr> TransformationCounter = Counter, ValidInstanceNum = 0, QueryInstanceOnly = QueryOnly,
       TransError = TransSuccess, VisitedVarDecls = {}, TheVarDecl = None, ArraySz = Sz0,
       TheRewriter = initialBuffer (SrcText Ctx) \<rparr>"

subsection \<open>Collecting the candidates\<close>

definition addOneVar :: "ReduceArrayDim \<Rightarrow> VarDecl \<Rightarrow> ReduceArrayDim" where
  "addOneVar st VD =
     (let ArrayTy = getType VD
      in if \<not> isArrayType ArrayTy then st
         else if getArrayDimension ArrayTy \<le> 1 then st
         else if isDependentSizedArrayType ArrayTy \<or> isVariableArrayType ArrayTy then st
         else let CanonicalVD = getCanonicalDecl VD
              in if CanonicalVD \<in> VisitedVarDecls st then st
                 else let st1 = st\<lparr>VisitedVarDecls := insert CanonicalVD (VisitedVarDecls st),
                                     ValidInstanceNum := ValidInstanceNum st + 1\<rparr>
                      in if TransformationCounter st1 = ValidInstanceNum st1
                         then st1\<lparr>TheVarDecl := Some CanonicalVD\<rparr>
                         else st1)"

text \<open>
  \<^verbatim>\<open>HandleTopLevelDecl\<close> runs the collection visitor, whose \<^verbatim>\<open>VisitVarDecl\<close> calls
  \<open>addOneVar\<close> on every variable declaration.
\<close>

fun HandleTopLevelDecl :: "ReduceArrayDim \<Rightarrow> Node list \<Rightarrow> ReduceArrayDim" where
  "HandleTopLevelDecl st [] = st"
| "HandleTopLevelDecl st (VarDeclNode VD # D) = HandleTopLevelDecl (addOneVar st VD) D"
| "HandleTopLevelDecl st (ExprNode E # D) = HandleTopLevelDecl st D"

subsection \<open>Rewriting the declaration\<close>

fun getBracketLocPairs :: "string \<Rightarrow> SourceLocation \<Rightarrow> nat \<Rightarrow> SourceRange list" where
  "getBracketLocPairs src StartLoc 0 = []"
| "getBracketLocPairs src StartLoc (Suc Dim) =
     (let BPStartLoc = getLocationUntil src StartLoc (CHR ''['');
          BPEndLoc = getLocationUntil src BPStartLoc (CHR '']'')
      in (BPStartLoc, BPEndLoc) # getBracketLocPairs src BPEndLoc Dim)"

definition rewriteOneVarDecl :: "ReduceArrayDim \<Rightarrow> string \<Rightarrow> VarDecl \<Rightarrow> Abort + ReduceArrayDim" where
  "rewriteOneVarDecl st src VD =
     (let ArrayTy = getType VD
      in if \<not> isArrayType ArrayTy then Inl (TransAssertFailed ''Invalid ArrayType!'')
         else
           let TyVec = getArrayDimensionAndTypes ArrayTy;
               Dim = length TyVec;
               BPVector = getBracketLocPairs src (getLocation VD) Dim
           in if \<not> length BPVector > 1 then Inl (TransAssertFailed ''Invalid Bracket Pairs!'')
              else
                let CstArrayTy = rev TyVec ! 0
                in if \<not> isConstantArrayType CstArrayTy
                   then Inl (TransAssertFailed ''Non ConstantArrayType!'')
                   else
                     let LastSz = getConstArraySize CstArrayTy;
                         SecArrayTy = rev TyVec ! 1;
                         LastBracketPair = rev BPVector ! 0;
                         buf1 = RemoveText (TheRewriter st) LastBracketPair;
                         SecBracketPair = rev BPVector ! 1
                     in if \<not> isIncompleteArrayType SecArrayTy
                        then
                          if \<not> isConstantArrayType SecArrayTy
                          then Inl (TransAssertFailed ''Non ConstantArrayType!'')
                          else
                            let Sz = getConstArraySize SecArrayTy;
                                StartLoc = fst SecBracketPair + 1;
                                EndLoc = snd SecBracketPair - 1
                            in Inr (st\<lparr>ArraySz := Sz,
                                       TheRewriter :=
                                         ReplaceText buf1 (StartLoc, EndLoc) (show_unsigned (LastSz * Sz))\<rparr>)
                        else Inr (st\<lparr>TheRewriter := buf1\<rparr>))"

subsection \<open>Rewriting the subscripts\<close>

definition isIntegerExpr :: "Expr \<Rightarrow> bool" where
  "isIntegerExpr Exp =
     (case IgnoreParenCasts Exp of
        IntegerLiteral r v \<Rightarrow> True
      | CharacterLiteral r v \<Rightarrow> True
      | _ \<Rightarrow> False)"

text \<open>
  The evaluated index is written in decimal and read back into an \<^verbatim>\<open>int\<close>; the read
  fails on a value that an \<^verbatim>\<open>int\<close> does not hold.
\<close>

definition getIndexAsInteger :: "Expr \<Rightarrow> Abort + cint" where
  "getIndexAsInteger E =
     (case EvaluateAsInt E of
        None \<Rightarrow> Inl (TransAssertFailed ''Failed to Evaluate index!'')
      | Some Result \<Rightarrow>
          if - (2 ^ 31) \<le> Result \<and> Result < 2 ^ 31 then Inr (word_of_int Result)
          else Inl (TransAssertFailed ''Non-integer value!''))"

definition rewriteSubscriptExpr :: "ReduceArrayDim \<Rightarrow> string \<Rightarrow> Expr list \<Rightarrow> Abort + ReduceArrayDim" where
  "rewriteSubscriptExpr st src IdxExprs =
     (let LastE = IdxExprs ! 0;
          SecE = IdxExprs ! 1;
          buf1 = removeArraySubscriptExpr src (TheRewriter st) LastE
      in if isIntegerExpr LastE \<and> isIntegerExpr SecE
         then
           (case getIndexAsInteger LastE of
              Inl a \<Rightarrow> Inl a
            | Inr LastIdx \<Rightarrow>
                (case getIndexAsInteger SecE of
                   Inl a \<Rightarrow> Inl a
                 | Inr SecIdx \<Rightarrow>
                     let NewIdx = SecIdx * ArraySz st + LastIdx
                     in Inr (st\<lparr>TheRewriter := replaceExpr buf1 SecE (show_cint NewIdx)\<rparr>)))
         else
           let LastStr = getExprString src LastE;
               SecStr = getExprString src SecE
           in Inr (st\<lparr>TheRewriter :=
                        replaceExpr buf1 SecE
                          (''('' @ SecStr @ '')*'' @ show_unsigned (ArraySz st) @ ''+'' @ LastStr)\<rparr>))"

definition handleOneArraySubscriptExpr :: "ReduceArrayDim \<Rightarrow> string \<Rightarrow> Expr \<Rightarrow> Abort + ReduceArrayDim" where
  "handleOneArraySubscriptExpr st src ASE =
     (let ASETy = getTypeOfExpr ASE
      in if \<not> isScalarType ASETy \<and> \<not> isStructureType ASETy \<and> \<not> isUnionType ASETy then Inr st
         else
           let (BaseE, IdxExprs) = getBaseExprAndIdxExprs ASE
           in case BaseE of
                None \<Rightarrow> Inl (TransAssertFailed ''Empty Base expression!'')
              | Some B \<Rightarrow>
                  if length IdxExprs \<le> 1 then Inr st
                  else
                    (case B of
                       DeclRefExpr r OrigDecl \<Rightarrow>
                         (case OrigDecl of
                            VarDeclRef VD \<Rightarrow>
                              if Some (getCanonicalDecl VD) \<noteq> TheVarDecl st then Inr st
                              else rewriteSubscriptExpr st src IdxExprs
                          | OtherValueDecl \<Rightarrow> Inr st)
                     | _ \<Rightarrow> Inr st))"

subsection \<open>The rewrite traversal\<close>

definition VisitVarDecl :: "ReduceArrayDim \<Rightarrow> string \<Rightarrow> VarDecl \<Rightarrow> Abort + ReduceArrayDim" where
  "VisitVarDecl st src VD =
     (if Some (getCanonicalDecl VD) \<noteq> TheVarDecl st then Inr st
      else rewriteOneVarDecl st src VD)"

text \<open>
  \<^verbatim>\<open>VisitArraySubscriptExpr\<close> hands every subscript node to
  \<open>handleOneArraySubscriptExpr\<close>; an abort ends the traversal.
\<close>

fun VisitArraySubscriptExprs :: "ReduceArrayDim \<Rightarrow> string \<Rightarrow> Expr list \<Rightarrow> Abort + ReduceArrayDim" where
  "VisitArraySubscriptExprs st src [] = Inr st"
| "VisitArraySubscriptExprs st src (ASE # ASEs) =
     (case handleOneArraySubscriptExpr st src ASE of
        Inl a \<Rightarrow> Inl a
      | Inr st1 \<Rightarrow> VisitArraySubscriptExprs st1 src ASEs)"

fun TraverseDecl :: "ReduceArrayDim \<Rightarrow> string \<Rightarrow> Node list \<Rightarrow> Abort + ReduceArrayDim" where
  "TraverseDecl st src [] = Inr st"
| "TraverseDecl st src (VarDeclNode VD # D) =
     (case VisitVarDecl st src VD of
        Inl a \<Rightarrow> Inl a
      | Inr st1 \<Rightarrow> TraverseDecl st1 src D)"
| "TraverseDecl st src (ExprNode E # D) =
     (case VisitArraySubscriptExprs st src (subscriptNodes E) of
        Inl a \<Rightarrow> Inl a
      | Inr st1 \<Rightarrow> TraverseDecl st1 src D)"

definition HandleTranslationUnit :: "ReduceArrayDim \<Rightarrow> ASTContext \<Rightarrow> Abort + ReduceArrayDim" where
  "HandleTranslationUnit st Ctx =
     (if QueryInstanceOnly st then Inr st
      else if TransformationCounter st > ValidInstanceNum st
      then Inr (st\<lparr>TransError := TransMaxInstanceError\<rparr>)
      else if TheVarDecl st = None then Inl (TransAssertFailed ''NULL TheVarDecl!'')
      else
        (case TraverseDecl st (SrcText Ctx) (TranslationUnitDecl Ctx) of
           Inl a \<Rightarrow> Inl a
         | Inr st1 \<Rightarrow>
             if hasErrorOccurred Ctx \<or> hasFatalErrorOccurred Ctx
             then Inr (st1\<lparr>TransError := TransInternalError\<rparr>)
             else Inr st1))"

text \<open>One invocation of the pass: the collection, then the rewriting.\<close>

definition runPass :: "int \<Rightarrow> unsigned \<Rightarrow> ASTContext \<Rightarrow> Abort + ReduceArrayDim" where
  "runPass Counter Sz0 Ctx =
     HandleTranslationUnit
       (HandleTopLevelDecl (Initialize Counter False Sz0 Ctx) (TranslationUnitDecl Ctx)) Ctx"

text \<open>What an invocation leaves behind: the abort, or the rewritten text.\<close>

definition rewrittenText :: "Abort + ReduceArrayDim \<Rightarrow> Abort + string" where
  "rewrittenText res = map_sum id (\<lambda>st. getRewrittenText (TheRewriter st)) res"

subsection \<open>Notions of the specification\<close>

text \<open>
  A dimension descriptor is a fixed extent or an incomplete dimension; an array variable
  has a sequence of them over an element type that is no array.
\<close>

datatype Dimension = Fixed unsigned | Incomplete

fun arrayOf :: "Dimension list \<Rightarrow> QualType \<Rightarrow> QualType" where
  "arrayOf [] E = E"
| "arrayOf (Fixed n # ds) E = ConstantArrayType n (arrayOf ds E)"
| "arrayOf (Incomplete # ds) E = IncompleteArrayType (arrayOf ds E)"

text \<open>The text of one dimension specifier, and a text without brackets.\<close>

definition bracketed :: "string \<Rightarrow> string" where
  "bracketed c = CHR ''['' # c @ '']''"

definition bracketFree :: "string \<Rightarrow> bool" where
  "bracketFree c = (CHR ''['' \<notin> set c \<and> CHR '']'' \<notin> set c)"

text \<open>
  The candidate set: the canonical identities of the declarations that pass the tests of
  \<open>addOneVar\<close>, without duplicates, in the order of their first visit.
\<close>

definition passesTests :: "VarDecl \<Rightarrow> bool" where
  "passesTests VD =
     (isArrayType (getType VD) \<and> 1 < getArrayDimension (getType VD) \<and>
      \<not> isDependentSizedArrayType (getType VD) \<and> \<not> isVariableArrayType (getType VD))"

fun collectCandidates :: "nat list \<Rightarrow> Node list \<Rightarrow> nat list" where
  "collectCandidates seen [] = seen"
| "collectCandidates seen (VarDeclNode VD # D) =
     collectCandidates
       (if passesTests VD \<and> getCanonicalDecl VD \<notin> set seen then seen @ [getCanonicalDecl VD]
        else seen) D"
| "collectCandidates seen (ExprNode E # D) = collectCandidates seen D"

definition candidates :: "Node list \<Rightarrow> nat list" where
  "candidates D = collectCandidates [] D"

text \<open>
  The target that a counter selects among a list of candidates: the candidate whose ordinal,
  counted from 1, is the counter.
\<close>

definition selected :: "int \<Rightarrow> nat list \<Rightarrow> nat option" where
  "selected Counter seen =
     (if 1 \<le> Counter \<and> Counter \<le> int (length seen) then Some (seen ! (nat Counter - 1)) else None)"

text \<open>
  The preconditions of the specification for rewriting a chain, in its words: the result
  type is scalar, struct or union; the chain has at least two index expressions; the base is
  a direct reference to the target.
\<close>

fun chainBase :: "Expr \<Rightarrow> Expr" where
  "chainBase (ArraySubscriptExpr r T b i) = chainBase b"
| "chainBase (ParenExpr r e) = chainBase e"
| "chainBase (CastExpr r k e) = chainBase e"
| "chainBase e = e"

fun refersTo :: "Expr \<Rightarrow> nat option \<Rightarrow> bool" where
  "refersTo (DeclRefExpr r (VarDeclRef VD)) target = (target = Some (getCanonicalDecl VD))"
| "refersTo e target = False"

definition rewritePreconditions :: "ReduceArrayDim \<Rightarrow> Expr \<Rightarrow> bool" where
  "rewritePreconditions st ASE =
     ((isScalarType (getTypeOfExpr ASE) \<or> isStructureType (getTypeOfExpr ASE) \<or>
       isUnionType (getTypeOfExpr ASE)) \<and>
      2 \<le> length (chainNodes ASE) \<and>
      refersTo (chainBase ASE) (TheVarDecl st))"

text \<open>A literal index in the wide sense: a literal under any parentheses and casts.\<close>

fun isWrappedLiteral :: "Expr \<Rightarrow> bool" where
  "isWrappedLiteral (IntegerLiteral r v) = True"
| "isWrappedLiteral (CharacterLiteral r v) = True"
| "isWrappedLiteral (ParenExpr r e) = isWrappedLiteral e"
| "isWrappedLiteral (CastExpr r k e) = isWrappedLiteral e"
| "isWrappedLiteral e = False"

text \<open>
  Modelled from the spec: the typing of a subscript chain by the semantic analysis of the
  host compiler. Each subscript node has the element type of its base, which is used
  through an implicit cast; the indices are given in the order of the source text.
\<close>

fun getElementType :: "QualType \<Rightarrow> QualType" where
  "getElementType (ConstantArrayType n T) = T"
| "getElementType (IncompleteArrayType T) = T"
| "getElementType (VariableArrayType T) = T"
| "getElementType (DependentSizedArrayType T) = T"
| "getElementType (PointerType T) = T"
| "getElementType T = OtherType"

fun subscriptChain :: "Expr \<Rightarrow> Expr list \<Rightarrow> Expr" where
  "subscriptChain b [] = b"
| "subscriptChain b (i # idxs) =
     subscriptChain
       (ArraySubscriptExpr (fst (getSourceRange b), snd (getSourceRange i) + 1)
          (getElementType (getTypeOfExpr b)) (CastExpr (getSourceRange b) OtherCast b) i)
       idxs"

subsection \<open>Example programs\<close>

text \<open>
  \<^verbatim>\<open>int a[2][3][4]; void foo(void) { a[1][2][3]; }\<close>: the example of the description of
  the pass.
\<close>

definition declA :: VarDecl where
  "declA = \<lparr> getCanonicalDecl = 0,
     getType = ConstantArrayType 2 (ConstantArrayType 3 (ConstantArrayType 4 BuiltinType)),
     getLocation = 4 \<rparr>"

definition chainA :: Expr where
  "chainA =
     ArraySubscriptExpr (33, 42) BuiltinType
       (CastExpr (33, 39) OtherCast
         (ArraySubscriptExpr (33, 39) (ConstantArrayType 4 BuiltinType)
           (CastExpr (33, 36) OtherCast
             (ArraySubscriptExpr (33, 36) (ConstantArrayType 3 (ConstantArrayType 4 BuiltinType))
               (CastExpr (33, 33) OtherCast (DeclRefExpr (33, 33) (VarDeclRef declA)))
               (IntegerLiteral (35, 35) 1)))
           (IntegerLiteral (38, 38) 2)))
       (IntegerLiteral (41, 41) 3)"

definition ctxA :: ASTContext where
  "ctxA = \<lparr> SrcText = ''int a[2][3][4]; void foo(void) { a[1][2][3]; }'',
     TranslationUnitDecl = [VarDeclNode declA, ExprNode chainA],
     hasErrorOccurred = False, hasFatalErrorOccurred = False \<rparr>"

text \<open>\<^verbatim>\<open>int a[][3]; void foo(void) { a[5][2]; }\<close>: an incomplete first dimension.\<close>

definition declB :: VarDecl where
  "declB = \<lparr> getCanonicalDecl = 0,
     getType = IncompleteArrayType (ConstantArrayType 3 BuiltinType),
     getLocation = 4 \<rparr>"

definition chainB :: Expr where
  "chainB =
     ArraySubscriptExpr (29, 35) BuiltinType
       (CastExpr (29, 32) OtherCast
         (ArraySubscriptExpr (29, 32) (ConstantArrayType 3 BuiltinType)
           (CastExpr (29, 29) OtherCast (DeclRefExpr (29, 29) (VarDeclRef declB)))
           (IntegerLiteral (31, 31) 5)))
       (IntegerLiteral (34, 34) 2)"

definition ctxB :: ASTContext where
  "ctxB = \<lparr> SrcText = ''int a[][3]; void foo(void) { a[5][2]; }'',
     TranslationUnitDecl = [VarDeclNode declB, ExprNode chainB],
     hasErrorOccurred = False, hasFatalErrorOccurred = False \<rparr>"

text \<open>
  \<^verbatim>\<open>int a[2][3][4]; void foo(int i, int j) { a[1][i + 1][j & 1]; }\<close>: indices that are
  no literals.
\<close>

definition chainC :: Expr where
  "chainC =
     ArraySubscriptExpr (41, 58) BuiltinType
       (CastExpr (41, 51) OtherCast
         (ArraySubscriptExpr (41, 51) (ConstantArrayType 4 BuiltinType)
           (CastExpr (41, 44) OtherCast
             (ArraySubscriptExpr (41, 44) (ConstantArrayType 3 (ConstantArrayType 4 BuiltinType))
               (CastExpr (41, 41) OtherCast (DeclRefExpr (41, 41) (VarDeclRef declA)))
               (IntegerLiteral (43, 43) 1)))
           (OtherExpr (46, 50) BuiltinType
             [CastExpr (46, 46) OtherCast (DeclRefExpr (46, 46) OtherValueDecl),
              IntegerLiteral (50, 50) 1])))
       (OtherExpr (53, 57) BuiltinType
         [CastExpr (53, 53) OtherCast (DeclRefExpr (53, 53) OtherValueDecl),
          IntegerLiteral (57, 57) 1])"

definition ctxC :: ASTContext where
  "ctxC = \<lparr> SrcText = ''int a[2][3][4]; void foo(int i, int j) { a[1][i + 1][j & 1]; }'',
     TranslationUnitDecl = [VarDeclNode declA, ExprNode chainC],
     hasErrorOccurred = False, hasFatalErrorOccurred = False \<rparr>"

text \<open>
  \<^verbatim>\<open>int *a[2][3]; void foo(void) { a[1][2][0]; }\<close>: an array of pointers, subscripted
  once more than it has dimensions.
\<close>

definition declD :: VarDecl where
  "declD = \<lparr> getCanonicalDecl = 0,
     getType = ConstantArrayType 2 (ConstantArrayType 3 (PointerType BuiltinType)),
     getLocation = 5 \<rparr>"

definition innerD :: Expr where
  "innerD =
     ArraySubscriptExpr (31, 37) (PointerType BuiltinType)
       (CastExpr (31, 34) OtherCast
         (ArraySubscriptExpr (31, 34) (ConstantArrayType 3 (PointerType BuiltinType))
           (CastExpr (31, 31) OtherCast (DeclRefExpr (31, 31) (VarDeclRef declD)))
           (IntegerLiteral (33, 33) 1)))
       (IntegerLiteral (36, 36) 2)"

definition chainD :: Expr where
  "chainD =
     ArraySubscriptExpr (31, 40) BuiltinType (CastExpr (31, 37) OtherCast innerD)
       (IntegerLiteral (39, 39) 0)"

definition ctxD :: ASTContext where
  "ctxD = \<lparr> SrcText = ''int *a[2][3]; void foo(void) { a[1][2][0]; }'',
     TranslationUnitDecl = [VarDeclNode declD, ExprNode chainD],
     hasErrorOccurred = False, hasFatalErrorOccurred = False \<rparr>"

text \<open>
  \<^verbatim>\<open>template <int N> void f(void) { int a[2][N]; }\<close>: the inner dimension depends on a
  template parameter, the outer one is constant.
\<close>

definition declE :: VarDecl where
  "declE = \<lparr> getCanonicalDecl = 0,
     getType = ConstantArrayType 2 (DependentSizedArrayType BuiltinType),
     getLocation = 36 \<rparr>"

definition ctxE :: ASTContext where
  "ctxE = \<lparr> SrcText = ''template <int N> void f(void) { int a[2][N]; }'',
     TranslationUnitDecl = [VarDeclNode declE],
     hasErrorOccurred = False, hasFatalErrorOccurred = False \<rparr>"

text \<open>
  \<^verbatim>\<open>int a[2][3][4]; void foo(void) { a[1][(2)][(char)3]; }\<close>: literals under
  parentheses and under a cast.
\<close>

definition chainF :: Expr where
  "chainF =
     ArraySubscriptExpr (33, 50) BuiltinType
       (CastExpr (33, 41) OtherCast
         (ArraySubscriptExpr (33, 41) (ConstantArrayType 4 BuiltinType)
           (CastExpr (33, 36) OtherCast
             (ArraySubscriptExpr (33, 36) (ConstantArrayType 3 (ConstantArrayType 4 BuiltinType))
               (CastExpr (33, 33) OtherCast (DeclRefExpr (33, 33) (VarDeclRef declA)))
               (IntegerLiteral (35, 35) 1)))
           (ParenExpr (38, 40) (IntegerLiteral (39, 39) 2))))
       (CastExpr (43, 49) (IntegralCast True 8) (IntegerLiteral (49, 49) 3))"

definition ctxF :: ASTContext where
  "ctxF = \<lparr> SrcText = ''int a[2][3][4]; void foo(void) { a[1][(2)][(char)3]; }'',
     TranslationUnitDecl = [VarDeclNode declA, ExprNode chainF],
     hasErrorOccurred = False, hasFatalErrorOccurred = False \<rparr>"

text \<open>The layers of an array of given dimensions, from the outermost to the innermost.\<close>

fun layersOf :: "Dimension list \<Rightarrow> QualType \<Rightarrow> QualType list" where
  "layersOf [] E = []"
| "layersOf (d # ds) E = arrayOf (d # ds) E # layersOf ds E"

text \<open>
  The states of the pass on the example programs: after the collection, and after
  the rewriting of the declaration.
\<close>

definition stateA0 :: ReduceArrayDim where
  "stateA0 = HandleTopLevelDecl (Initialize 1 False 0 ctxA) (TranslationUnitDecl ctxA)"

definition stateA1 :: ReduceArrayDim where
  "stateA1 = projr (rewriteOneVarDecl stateA0 (SrcText ctxA) declA)"

definition stateB0 :: ReduceArrayDim where
  "stateB0 = HandleTopLevelDecl (Initialize 1 False 0 ctxB) (TranslationUnitDecl ctxB)"

definition stateD0 :: ReduceArrayDim where
  "stateD0 = HandleTopLevelDecl (Initialize 1 False 0 ctxD) (TranslationUnitDecl ctxD)"

definition stateF0 :: ReduceArrayDim where
  "stateF0 = HandleTopLevelDecl (Initialize 1 False 0 ctxF) (TranslationUnitDecl ctxF)"

definition stateF1 :: ReduceArrayDim where
  "stateF1 = projr (rewriteOneVarDecl stateF0 (SrcText ctxF) declA)"

definition stateD1 :: ReduceArrayDim where
  "stateD1 = projr (rewriteOneVarDecl stateD0 (SrcText ctxD) declD)"

text \<open>
  The dimension specifiers of a declaration, each with the text in front of its opening
  bracket (the declared name and any blanks for the first one), and their bracket spans
  when the text starts at an offset.
\<close>

definition specifiers :: "(string \<times> string) list \<Rightarrow> string" where
  "specifiers gs = concat (map (\<lambda>(g, c). g @ bracketed c) gs)"

fun specifierSpans :: "nat \<Rightarrow> (string \<times> string) list \<Rightarrow> SourceRange list" where
  "specifierSpans off [] = []"
| "specifierSpans off ((g, c) # gs) =
     (off + length g, off + length g + length c + 1) #
     specifierSpans (off + length g + length c + 2) gs"

text \<open>
  Whether a node of the traversal is a declaration of the target.
\<close>

fun declaresTarget :: "nat option \<Rightarrow> Node \<Rightarrow> bool" where
  "declaresTarget target (VarDeclNode VD) = (Some (getCanonicalDecl VD) = target)"
| "declaresTarget target (ExprNode E) = False"

text \<open>
  \<^verbatim>\<open>struct S { int f() { return a[1][2][3]; } static int a[2][3][4]; };\<close>: the traversal
  reaches the chain in the body of the member function before the declaration of the
  static member.
\<close>

definition declG :: VarDecl where
  "declG = \<lparr> getCanonicalDecl = 0,
     getType = ConstantArrayType 2 (ConstantArrayType 3 (ConstantArrayType 4 BuiltinType)),
     getLocation = 53 \<rparr>"

definition chainG :: Expr where
  "chainG =
     ArraySubscriptExpr (28, 37) BuiltinType
       (CastExpr (28, 34) OtherCast
         (ArraySubscriptExpr (28, 34) (ConstantArrayType 4 BuiltinType)
           (CastExpr (28, 31) OtherCast
             (ArraySubscriptExpr (28, 31) (ConstantArrayType 3 (ConstantArrayType 4 BuiltinType))
               (CastExpr (28, 28) OtherCast (DeclRefExpr (28, 28) (VarDeclRef declG)))
               (IntegerLiteral (30, 30) 1)))
           (IntegerLiteral (33, 33) 2)))
       (IntegerLiteral (36, 36) 3)"

definition ctxG :: ASTContext where
  "ctxG = \<lparr> SrcText = ''struct S { int f() { return a[1][2][3]; } static int a[2][3][4]; };'',
     TranslationUnitDecl = [ExprNode chainG, VarDeclNode declG],
     hasErrorOccurred = False, hasFatalErrorOccurred = False \<rparr>"

text \<open>
  \<^verbatim>\<open>struct S { int f(int i) { return a[1][i][3]; } static int a[2][3][4]; };\<close>: the same
  order, with an index that is no literal.
\<close>

definition declJ :: VarDecl where
  "declJ = \<lparr> getCanonicalDecl = 0,
     getType = ConstantArrayType 2 (ConstantArrayType 3 (ConstantArrayType 4 BuiltinType)),
     getLocation = 58 \<rparr>"

definition chainJ :: Expr where
  "chainJ =
     ArraySubscriptExpr (33, 42) BuiltinType
       (CastExpr (33, 39) OtherCast
         (ArraySubscriptExpr (33, 39) (ConstantArrayType 4 BuiltinType)
           (CastExpr (33, 36) OtherCast
             (ArraySubscriptExpr (33, 36) (ConstantArrayType 3 (ConstantArrayType 4 BuiltinType))
               (CastExpr (33, 33) OtherCast (DeclRefExpr (33, 33) (VarDeclRef declJ)))
               (IntegerLiteral (35, 35) 1)))
           (CastExpr (38, 38) OtherCast (DeclRefExpr (38, 38) OtherValueDecl))))
       (IntegerLiteral (41, 41) 3)"

definition ctxJ :: ASTContext where
  "ctxJ = \<lparr> SrcText = ''struct S { int f(int i) { return a[1][i][3]; } static int a[2][3][4]; };'',
     TranslationUnitDecl = [ExprNode chainJ, VarDeclNode declJ],
     hasErrorOccurred = False, hasFatalErrorOccurred = False \<rparr>"

text \<open>\<^verbatim>\<open>char a[65536][65536];\<close>: two extents whose product is \<open>2 ^ 32\<close>.\<close>

definition declH :: VarDecl where
  "declH = \<lparr> getCanonicalDecl = 0,
     getType = ConstantArrayType 65536 (ConstantArrayType 65536 BuiltinType),
     getLocation = 5 \<rparr>"

definition ctxH :: ASTContext where
  "ctxH = \<lparr> SrcText = ''char a[65536][65536];'',
     TranslationUnitDecl = [VarDeclNode declH],
     hasErrorOccurred = False, hasFatalErrorOccurred = False \<rparr>"

text \<open>
  \<^verbatim>\<open>int a[2][3][4]; int b; void foo(void) { a[1][2][3]; }\<close> and
  \<^verbatim>\<open>int a[2][3][4]; int b; void foo(int i, int j) { a[1][i + 1][j & 1]; }\<close>: another
  declaration stands between the declaration of the target and the chain. The states are
  those after the collection and after the rewriting of the declaration of the target.
\<close>

definition declb :: VarDecl where
  "declb = \<lparr> getCanonicalDecl = 1, getType = BuiltinType, getLocation = 20 \<rparr>"

definition chainI :: Expr where
  "chainI =
     ArraySubscriptExpr (40, 49) BuiltinType
       (CastExpr (40, 46) OtherCast
         (ArraySubscriptExpr (40, 46) (ConstantArrayType 4 BuiltinType)
           (CastExpr (40, 43) OtherCast
             (ArraySubscriptExpr (40, 43) (ConstantArrayType 3 (ConstantArrayType 4 BuiltinType))
               (CastExpr (40, 40) OtherCast (DeclRefExpr (40, 40) (VarDeclRef declA)))
               (IntegerLiteral (42, 42) 1)))
           (IntegerLiteral (45, 45) 2)))
       (IntegerLiteral (48, 48) 3)"

definition ctxI :: ASTContext where
  "ctxI = \<lparr> SrcText = ''int a[2][3][4]; int b; void foo(void) { a[1][2][3]; }'',
     TranslationUnitDecl = [VarDeclNode declA, VarDeclNode declb, ExprNode chainI],
     hasErrorOccurred = False, hasFatalErrorOccurred = False \<rparr>"

definition stateI0 :: ReduceArrayDim where
  "stateI0 = HandleTopLevelDecl (Initialize 1 False 0 ctxI) (TranslationUnitDecl ctxI)"

definition stateI1 :: ReduceArrayDim where
  "stateI1 = projr (rewriteOneVarDecl stateI0 (SrcText ctxI) declA)"

definition chainK :: Expr where
  "chainK =
     ArraySubscriptExpr (48, 65) BuiltinType
       (CastExpr (48, 58) OtherCast
         (ArraySubscriptExpr (48, 58) (ConstantArrayType 4 BuiltinType)
           (CastExpr (48, 51) OtherCast
             (ArraySubscriptExpr (48, 51) (ConstantArrayType 3 (ConstantArrayType 4 BuiltinType))
               (CastExpr (48, 48) OtherCast (DeclRefExpr (48, 48) (VarDeclRef declA)))
               (IntegerLiteral (50, 50) 1)))
           (OtherExpr (53, 57) BuiltinType
             [CastExpr (53, 53) OtherCast (DeclRefExpr (53, 53) OtherValueDecl),
              IntegerLiteral (57, 57) 1])))
       (OtherExpr (60, 64) BuiltinType
         [CastExpr (60, 60) OtherCast (DeclRefExpr (60, 60) OtherValueDecl),
          IntegerLiteral (64, 64) 1])"

definition ctxK :: ASTContext where
  "ctxK = \<lparr> SrcText = ''int a[2][3][4]; int b; void foo(int i, int j) { a[1][i + 1][j & 1]; }'',
     TranslationUnitDecl = [VarDeclNode declA, VarDeclNode declb, ExprNode chainK],
     hasErrorOccurred = False, hasFatalErrorOccurred = False \<rparr>"

definition stateK0 :: ReduceArrayDim where
  "stateK0 = HandleTopLevelDecl (Initialize 1 False 0 ctxK) (TranslationUnitDecl ctxK)"

definition stateK1 :: ReduceArrayDim where
  "stateK1 = projr (rewriteOneVarDecl stateK0 (SrcText ctxK) declA)"

section \<open>Properties\<close>

subsection \<open>The example of the description\<close>

text \<open>
  C4. For the program \<^verbatim>\<open>int a[2][3][4];\<close> with the subscript \<^verbatim>\<open>a[1][2][3]\<close> and
  target instance 1, the pass rewrites the declaration to \<^verbatim>\<open>int a[2][12];\<close> and the
  subscript to \<^verbatim>\<open>a[1][9]\<close>: the two trailing literal indices are folded into the single
  integer literal 9. The first value of the cached extent does not matter.
\<close>

theorem example_a_2_3_4:
  "rewrittenText (runPass 1 Sz0 ctxA) = Inr ''int a[2][12]; void foo(void) { a[1][9]; }''"
  by code_simp

subsection \<open>The programs with an incomplete dimension and with an inner dependent dimension\<close>

text \<open>
  C3. For the program \<^verbatim>\<open>int a[][3];\<close> accessed as \<^verbatim>\<open>a[5][2]\<close>, with target instance 1,
  the pass rewrites the declaration to \<^verbatim>\<open>int a[];\<close>: the trailing \<^verbatim>\<open>[3]\<close> is removed,
  the incomplete \<^verbatim>\<open>[]\<close> is kept and no product is computed. The subscript is folded
  to one decimal literal, which is \<open>5 * Sz0 + 2\<close> in \<^verbatim>\<open>int\<close> arithmetic for the value
  \<open>Sz0\<close> that the cached extent had before the pass. The rewriting of the declaration
  assigns the cache, which its comment says is needed for the subscripts, only in the
  branch for a second-to-last dimension that is not incomplete; here the cache is never
  assigned, and the index depends on no extent of the program.
\<close>

theorem example_incomplete_dimension:
  "rewrittenText (runPass 1 Sz0 ctxB) =
     Inr (''int a[]; void foo(void) { a['' @ show_cint (5 * Sz0 + 2) @ '']; }'')"
  by code_simp

text \<open>
  The subscript does not become \<^verbatim>\<open>a[11]\<close>: with a cache that starts at 0 it becomes
  \<^verbatim>\<open>a[2]\<close>, and with the trailing extent 3 in the cache it would be \<^verbatim>\<open>a[17]\<close>.
\<close>

lemma example_incomplete_dimension_values:
  "rewrittenText (runPass 1 0 ctxB) = Inr ''int a[]; void foo(void) { a[2]; }'' \<and>
   rewrittenText (runPass 1 0 ctxB) \<noteq> Inr ''int a[]; void foo(void) { a[11]; }'' \<and>
   rewrittenText (runPass 1 3 ctxB) = Inr ''int a[]; void foo(void) { a[17]; }''"
  by code_simp

text \<open>
  In the \<^verbatim>\<open>int\<close> arithmetic of the source the folded index is 11 for one value of the stale
  cache only.
\<close>

lemma stale_cache_folds_to_11:
  "(5 * Sz0 + 2 = (11::cint)) = (Sz0 = 858993461)"
proof
  assume "5 * Sz0 + 2 = (11::cint)"
  then have "5 * Sz0 = 9" by simp
  then have "3435973837 * (5 * Sz0) = 3435973837 * (9::cint)" by simp
  moreover have "3435973837 * (5 * Sz0) = Sz0"
  proof -
    have "3435973837 * (5 * Sz0) = (3435973837 * 5) * Sz0" by (simp only: mult.assoc)
    also have "(3435973837 * 5 :: cint) = 1" by simp
    finally show ?thesis by simp
  qed
  moreover have "3435973837 * (9::cint) = 858993461" by simp
  ultimately show "Sz0 = 858993461" by simp
next
  assume "Sz0 = 858993461"
  then show "5 * Sz0 + 2 = (11::cint)" by simp
qed

subsection \<open>The collection of the candidates\<close>

lemma addOneVar_frame:
  "TransformationCounter (addOneVar st VD) = TransformationCounter st"
  "QueryInstanceOnly (addOneVar st VD) = QueryInstanceOnly st"
  "TransError (addOneVar st VD) = TransError st"
  "ArraySz (addOneVar st VD) = ArraySz st"
  "TheRewriter (addOneVar st VD) = TheRewriter st"
  by (simp_all add: addOneVar_def Let_def)

lemma selected_snoc:
  "selected c (seen @ [x]) = (if c = int (length seen) + 1 then Some x else selected c seen)"
  by (auto simp: selected_def nth_append)

text \<open>
  One call of \<open>addOneVar\<close> extends the candidate list by the declaration when it passes
  the tests and its canonical declaration is new, gives it the next ordinal, and makes it
  the target when this ordinal is the counter.
\<close>

lemma addOneVar_counts:
  assumes "VisitedVarDecls st = set seen" and "ValidInstanceNum st = int (length seen)"
    and "TheVarDecl st = selected (TransformationCounter st) seen"
  shows "VisitedVarDecls (addOneVar st VD) =
           set (if passesTests VD \<and> getCanonicalDecl VD \<notin> set seen
                then seen @ [getCanonicalDecl VD] else seen)"
    and "ValidInstanceNum (addOneVar st VD) =
           int (length (if passesTests VD \<and> getCanonicalDecl VD \<notin> set seen
                        then seen @ [getCanonicalDecl VD] else seen))"
    and "TheVarDecl (addOneVar st VD) =
           selected (TransformationCounter st)
             (if passesTests VD \<and> getCanonicalDecl VD \<notin> set seen
              then seen @ [getCanonicalDecl VD] else seen)"
  using assms
  by (auto simp: addOneVar_def Let_def passesTests_def selected_snoc)

lemma HandleTopLevelDecl_frame:
  "TransformationCounter (HandleTopLevelDecl st D) = TransformationCounter st \<and>
   QueryInstanceOnly (HandleTopLevelDecl st D) = QueryInstanceOnly st \<and>
   TransError (HandleTopLevelDecl st D) = TransError st \<and>
   ArraySz (HandleTopLevelDecl st D) = ArraySz st \<and>
   TheRewriter (HandleTopLevelDecl st D) = TheRewriter st"
  by (induction st D rule: HandleTopLevelDecl.induct) (simp_all add: addOneVar_frame)

lemma HandleTopLevelDecl_counts:
  "VisitedVarDecls st = set seen \<Longrightarrow> ValidInstanceNum st = int (length seen) \<Longrightarrow>
   TheVarDecl st = selected (TransformationCounter st) seen \<Longrightarrow>
   VisitedVarDecls (HandleTopLevelDecl st D) = set (collectCandidates seen D) \<and>
   ValidInstanceNum (HandleTopLevelDecl st D) = int (length (collectCandidates seen D)) \<and>
   TheVarDecl (HandleTopLevelDecl st D) = selected (TransformationCounter st) (collectCandidates seen D)"
proof (induction st D arbitrary: seen rule: HandleTopLevelDecl.induct)
  case (1 st)
  then show ?case by simp
next
  case (2 st VD D)
  let ?seen1 = "if passesTests VD \<and> getCanonicalDecl VD \<notin> set seen
                then seen @ [getCanonicalDecl VD] else seen"
  have "VisitedVarDecls (addOneVar st VD) = set ?seen1"
    and "ValidInstanceNum (addOneVar st VD) = int (length ?seen1)"
    and "TheVarDecl (addOneVar st VD) = selected (TransformationCounter (addOneVar st VD)) ?seen1"
    using addOneVar_counts [OF "2.prems"] by (simp_all add: addOneVar_frame)
  from "2.IH" [OF this] show ?case by (simp add: addOneVar_frame)
next
  case (3 st E D)
  then show ?case by simp
qed

text \<open>
  The state after the collection: the count of the candidates of the translation unit, the
  target that the counter selects among them, and nothing else touched.
\<close>

lemma collection_result:
  fixes Counter q Sz0 Ctx
  defines "st \<equiv> HandleTopLevelDecl (Initialize Counter q Sz0 Ctx) (TranslationUnitDecl Ctx)"
  shows "ValidInstanceNum st = int (length (candidates (TranslationUnitDecl Ctx)))"
    and "TheVarDecl st = selected Counter (candidates (TranslationUnitDecl Ctx))"
    and "VisitedVarDecls st = set (candidates (TranslationUnitDecl Ctx))"
    and "TransformationCounter st = Counter"
    and "QueryInstanceOnly st = q"
    and "TheRewriter st = initialBuffer (SrcText Ctx)"
    and "ArraySz st = Sz0"
    and "TransError st = TransSuccess"
proof -
  let ?i = "Initialize Counter q Sz0 Ctx"
  have "VisitedVarDecls ?i = set []" "ValidInstanceNum ?i = int (length ([]::nat list))"
    "TheVarDecl ?i = selected (TransformationCounter ?i) []"
    by (simp_all add: Initialize_def selected_def)
  from HandleTopLevelDecl_counts [OF this, of "TranslationUnitDecl Ctx"]
  show "ValidInstanceNum st = int (length (candidates (TranslationUnitDecl Ctx)))"
    and "TheVarDecl st = selected Counter (candidates (TranslationUnitDecl Ctx))"
    and "VisitedVarDecls st = set (candidates (TranslationUnitDecl Ctx))"
    by (simp_all add: st_def candidates_def Initialize_def)
  show "TransformationCounter st = Counter" "QueryInstanceOnly st = q"
    "TheRewriter st = initialBuffer (SrcText Ctx)" "ArraySz st = Sz0" "TransError st = TransSuccess"
    using HandleTopLevelDecl_frame [of ?i "TranslationUnitDecl Ctx"]
    by (simp_all add: st_def Initialize_def)
qed

lemma concat_initialBuffer [simp]: "concat (initialBuffer s) = s"
  by (induction s) (simp_all add: initialBuffer_def)

text \<open>
  C5. For every translation unit, a requested instance number greater than the number of
  candidates yields the outcome \<^verbatim>\<open>TransMaxInstanceError\<close> (no further instances), and the
  text is left as it was.
\<close>

theorem exhausted_beyond_count:
  assumes "int (length (candidates (TranslationUnitDecl Ctx))) < Counter"
  shows "map_sum id TransError (runPass Counter Sz0 Ctx) = Inr TransMaxInstanceError \<and>
         rewrittenText (runPass Counter Sz0 Ctx) = Inr (SrcText Ctx)"
  using assms
  by (simp add: runPass_def HandleTranslationUnit_def collection_result rewrittenText_def
      getRewrittenText_def concat_initialBuffer)

theorem exhausted_beyond_count_witness:
  "int (length (candidates (TranslationUnitDecl ctxA))) < 2 \<and>
   map_sum id TransError (runPass 2 0 ctxA) = Inr TransMaxInstanceError \<and>
   rewrittenText (runPass 2 0 ctxA) = Inr (SrcText ctxA)"
proof -
  have h: "int (length (candidates (TranslationUnitDecl ctxA))) < 2" by code_simp
  show ?thesis using h exhausted_beyond_count [OF h, of 0] by simp
qed

text \<open>
  The instance number 0 is not answered like that: no check of the pass catches it, and the
  pass stops at its assertion that a target has been selected.
\<close>

theorem instance_zero_not_exhausted:
  "runPass 0 0 ctxA = Inl (TransAssertFailed ''NULL TheVarDecl!'') \<and>
   map_sum id TransError (runPass 0 0 ctxA) \<noteq> Inr TransMaxInstanceError"
  by code_simp

lemma nonpositive_counter_aborts:
  "Counter \<le> 0 \<Longrightarrow> runPass Counter Sz0 Ctx = Inl (TransAssertFailed ''NULL TheVarDecl!'')"
  by (simp add: runPass_def HandleTranslationUnit_def collection_result selected_def)

text \<open>
  C6. The declaration \<^verbatim>\<open>int a[2][N]\<close> of a template, whose inner dimension is
  dependently sized, passes the tests of \<open>addOneVar\<close>, which look at the outermost layer
  only: it is counted, it gets the ordinal 1 and becomes the target, and the rewriting of
  the declaration then fails the assertion on its last layer.
\<close>

theorem inner_dependent_dimension_counted:
  "passesTests declE \<and>
   ValidInstanceNum (HandleTopLevelDecl (Initialize 1 False Sz0 ctxE) (TranslationUnitDecl ctxE)) = 1 \<and>
   TheVarDecl (HandleTopLevelDecl (Initialize 1 False Sz0 ctxE) (TranslationUnitDecl ctxE)) = Some 0 \<and>
   runPass 1 Sz0 ctxE = Inl (TransAssertFailed ''Non ConstantArrayType!'')"
  by code_simp

subsection \<open>The rewrite buffer and the scans of the text\<close>

lemma length_initialBuffer [simp]: "length (initialBuffer s) = length s"
  by (simp add: initialBuffer_def)

lemma initialBuffer_append [simp]: "initialBuffer (s @ t) = initialBuffer s @ initialBuffer t"
  by (simp add: initialBuffer_def)

lemma initialBuffer_Cons [simp]: "initialBuffer (c # s) = [c] # initialBuffer s"
  by (simp add: initialBuffer_def)

lemma initialBuffer_Nil [simp]: "initialBuffer [] = []"
  by (simp add: initialBuffer_def)

lemma initialBuffer_eq_Nil [simp]: "(initialBuffer s = []) = (s = [])"
  by (simp add: initialBuffer_def)

lemma concat_replicate_Nil [simp]: "concat (replicate n []) = []"
  by (induction n) simp_all

text \<open>An edit of a stretch of the buffer leaves the cells before and behind it alone.\<close>

lemma RemoveText_mid:
  assumes "length X = fst r" and "length M = getRangeSize r"
  shows "RemoveText (X @ M @ Y) r = X @ replicate (length M) [] @ Y"
proof -
  have "getRangeSize r = length M" "fst r = length X" using assms by simp_all
  then show ?thesis by (simp add: RemoveText_def)
qed

lemma ReplaceText_mid:
  assumes "length X = fst r" and "length M = getRangeSize r" and "M \<noteq> []"
  shows "ReplaceText (X @ M @ Y) r NewStr = X @ [NewStr] @ replicate (length M - 1) [] @ Y"
proof -
  have "getRangeSize r = length M" "fst r = length X" using assms by simp_all
  with assms(3) show ?thesis by (simp add: ReplaceText_def Let_def)
qed

lemma ReplaceText_insert:
  assumes "length X = fst r" and "getRangeSize r = 0"
  shows "ReplaceText (X @ c # Y) r NewStr = X @ (NewStr @ c) # Y"
  using assms by (simp add: ReplaceText_def Let_def)

lemma drop_prefix: "length X = n \<Longrightarrow> drop n (X @ Y) = Y"
  by simp

lemma takeWhile_stop:
  "Symbol \<notin> set N \<Longrightarrow> takeWhile (\<lambda>c. c \<noteq> Symbol) (N @ Symbol # Y) = N"
  by (induction N) auto

lemma getLocationUntil_skip:
  assumes "length X = Loc" and "Symbol \<notin> set N"
  shows "getLocationUntil (X @ N @ Symbol # Y) Loc Symbol = Loc + length N"
  using assms by (simp add: getLocationUntil_def takeWhile_stop)

lemma getLocationBefore_skip:
  assumes "length X + length N = Loc" and "Symbol \<notin> set N"
  shows "getLocationBefore (X @ Symbol # N @ Y) Loc Symbol = length X"
proof -
  have Loc: "Loc = length X + length N" using assms(1) by simp
  have t: "take (Suc Loc) (X @ Symbol # N @ Y) = X @ Symbol # N"
    by (simp add: Loc)
  have "takeWhile (\<lambda>c. c \<noteq> Symbol) (rev N @ Symbol # rev X) = rev N"
    using assms(2) by (simp add: takeWhile_stop)
  then show ?thesis by (simp add: getLocationBefore_def t Loc)
qed

text \<open>
  The edit of a chain. The text has the second-to-last index \<open>s\<close>, then \<open>B\<close> (its closing
  bracket, with any blanks), then the last subscript: an opening bracket, the last index
  \<open>l\<close> between the blanks \<open>p\<close> and \<open>q\<close>, and a closing bracket. Where the buffer is still
  unedited there, removing the last subscript and replacing the second-to-last index
  leaves the new index and \<open>B\<close>, whatever was edited elsewhere.
\<close>

lemma subscript_edit:
  assumes src: "src = A @ s @ B @ CHR ''['' # p @ l @ q @ CHR '']'' # Z"
    and buf: "buf = bA @ initialBuffer (s @ B @ CHR ''['' # p @ l @ q @ '']'') @ bZ"
      "length bA = length A"
    and rs: "getSourceRange SecE = (length A, length A + length s - 1)" "s \<noteq> []"
    and rl: "getSourceRange LastE =
        (length A + length s + length B + 1 + length p,
         length A + length s + length B + 1 + length p + length l - 1)"
      "l \<noteq> []"
    and pad: "CHR ''['' \<notin> set (p @ [hd l])" "CHR '']'' \<notin> set q"
  shows "concat (replaceExpr (removeArraySubscriptExpr src buf LastE) SecE NewStr) =
           concat bA @ NewStr @ B @ concat bZ"
    and "getExprString src SecE = s"
    and "getExprString src LastE = l"
proof -
  obtain c l' where l: "l = c # l'"
    using rl(2) by (cases l) auto
  let ?X = "A @ s @ B"
  let ?b = "length A + length s + length B + 1 + length p"
  have s1: "src = ?X @ CHR ''['' # (p @ [c]) @ (l' @ q @ CHR '']'' # Z)"
    by (simp add: src l)
  have start: "getLocationBefore src ?b (CHR ''['') = length ?X"
    unfolding s1 by (rule getLocationBefore_skip) (use pad(1) l in simp_all)
  have s2: "src = (?X @ CHR ''['' # p @ l) @ q @ CHR '']'' # Z"
    by (simp add: src)
  have e: "?b + length l - 1 + 1 = ?b + length l"
    using rl(2) by (cases l) simp_all
  have stop: "getLocationUntil src (?b + length l - 1 + 1) (CHR '']'') = ?b + length l + length q"
    unfolding e s2 by (rule getLocationUntil_skip) (use pad(2) in simp_all)
  have b1: "buf = (bA @ initialBuffer (s @ B)) @ initialBuffer (CHR ''['' # p @ l @ q @ '']'') @ bZ"
    by (simp add: buf)
  have r: "removeArraySubscriptExpr src buf LastE =
      RemoveText buf (length ?X, ?b + length l + length q)"
    unfolding removeArraySubscriptExpr_def Let_def rl(1) fst_conv snd_conv
    by (simp only: start stop)
  have "removeArraySubscriptExpr src buf LastE =
      (bA @ initialBuffer (s @ B)) @
      replicate (length (initialBuffer (CHR ''['' # p @ l @ q @ '']''))) [] @ bZ"
    unfolding r
    by (subst b1, rule RemoveText_mid) (simp_all add: getRangeSize_def buf(2))
  then have b2: "removeArraySubscriptExpr src buf LastE =
      bA @ initialBuffer s @
      (initialBuffer B @ replicate (length (initialBuffer (CHR ''['' # p @ l @ q @ '']''))) [] @ bZ)"
    by simp
  have "replaceExpr (removeArraySubscriptExpr src buf LastE) SecE NewStr =
      bA @ [NewStr] @ replicate (length (initialBuffer s) - 1) [] @
      (initialBuffer B @ replicate (length (initialBuffer (CHR ''['' # p @ l @ q @ '']''))) [] @ bZ)"
    unfolding replaceExpr_def
    by (subst b2, rule ReplaceText_mid) (use rs buf(2) in \<open>simp_all add: getRangeSize_def\<close>)
  then show "concat (replaceExpr (removeArraySubscriptExpr src buf LastE) SecE NewStr) =
           concat bA @ NewStr @ B @ concat bZ"
    by simp
  have "getRangeSize (getSourceRange SecE) = length s"
    using rs by (cases s) (simp_all add: getRangeSize_def)
  then show "getExprString src SecE = s"
    by (simp add: getExprString_def rs(1) src)
  have "drop ?b ((?X @ CHR ''['' # p) @ l @ q @ CHR '']'' # Z) = l @ q @ CHR '']'' # Z"
    by (rule drop_prefix) simp
  then have "drop ?b src = l @ q @ CHR '']'' # Z"
    by (simp add: src)
  moreover have "getRangeSize (getSourceRange LastE) = length l"
    using rl by (cases l) (simp_all add: getRangeSize_def)
  ultimately show "getExprString src LastE = l"
    by (simp add: getExprString_def rl(1))
qed

subsection \<open>The layers of a type and the bracket pairs of a declaration\<close>

lemma getArrayDimensionAndTypes_nonarray:
  "\<not> isArrayType E \<Longrightarrow> getArrayDimensionAndTypes E = []"
  by (cases E) simp_all

lemma getArrayDimensionAndTypes_arrayOf:
  "\<not> isArrayType E \<Longrightarrow> getArrayDimensionAndTypes (arrayOf ds E) = layersOf ds E"
  by (induction ds E rule: arrayOf.induct) (simp_all add: getArrayDimensionAndTypes_nonarray)

lemma arrayOf_append: "arrayOf (ds @ ds') E = arrayOf ds (arrayOf ds' E)"
  by (induction ds "arrayOf ds' E" rule: arrayOf.induct) simp_all

lemma layersOf_append: "layersOf (ds @ ds') E = layersOf ds (arrayOf ds' E) @ layersOf ds' E"
  by (induction ds) (simp_all add: arrayOf_append [symmetric] del: arrayOf.simps)

lemma length_layersOf [simp]: "length (layersOf ds E) = length ds"
  by (induction ds) simp_all

lemma isArrayType_arrayOf: "ds \<noteq> [] \<Longrightarrow> isArrayType (arrayOf ds E)"
  by (cases "(ds, E)" rule: arrayOf.cases) simp_all

lemma length_getBracketLocPairs [simp]: "length (getBracketLocPairs src Loc Dim) = Dim"
  by (induction src Loc Dim rule: getBracketLocPairs.induct) (simp_all add: Let_def)

text \<open>
  The declaration rewrite caches the extent of the second-to-last dimension, not the one
  of the last.
\<close>

lemma rewriteOneVarDecl_ArraySz:
  assumes "rewriteOneVarDecl st0 src VD = Inr st1"
    and "getType VD = arrayOf (ds @ [Fixed d, Fixed dk]) E" and "\<not> isArrayType E"
  shows "ArraySz st1 = d"
proof -
  have ty: "getArrayDimensionAndTypes (getType VD) =
      layersOf ds (arrayOf [Fixed d, Fixed dk] E) @
        [ConstantArrayType d (ConstantArrayType dk E), ConstantArrayType dk E]"
    by (simp add: assms(2,3) getArrayDimensionAndTypes_arrayOf layersOf_append)
  have arr: "isArrayType (getType VD)"
    by (simp add: assms(2) isArrayType_arrayOf)
  show ?thesis
    using assms(1) unfolding rewriteOneVarDecl_def Let_def ty
    by (auto simp: arr split: if_splits)
qed

lemma length_bracketed [simp]: "length (bracketed c) = length c + 2"
  by (simp add: bracketed_def)

lemma specifiers_simps [simp]:
  "specifiers [] = []" "specifiers ((g, c) # gs) = g @ bracketed c @ specifiers gs"
  "specifiers (gs @ gs') = specifiers gs @ specifiers gs'"
  by (simp_all add: specifiers_def)

lemma specifierSpans_append:
  "specifierSpans off (gs @ gs') =
     specifierSpans off gs @ specifierSpans (off + length (specifiers gs)) gs'"
  by (induction off gs rule: specifierSpans.induct) (simp_all add: add.assoc)

text \<open>
  The scan for the bracket pairs finds the dimension specifiers that follow the declared
  name, one after the other.
\<close>

lemma getBracketLocPairs_spans:
  assumes "CHR ''['' \<notin> set N"
    and "\<forall>gc\<in>set gs. CHR ''['' \<notin> set (fst gc) \<and> bracketFree (snd gc)"
    and "length X = Loc"
  shows "getBracketLocPairs (X @ N @ specifiers gs @ Z) Loc (length gs) =
           specifierSpans (Loc + length N) gs"
  using assms
proof (induction gs arbitrary: X N Loc)
  case Nil
  then show ?case by simp
next
  case (Cons gc gs)
  obtain g c where gc: "gc = (g, c)" by (cases gc)
  let ?src = "X @ N @ specifiers (gc # gs) @ Z"
  have g: "CHR ''['' \<notin> set (N @ g)" and c: "CHR ''['' \<notin> set c" "CHR '']'' \<notin> set c"
    using Cons.prems(1,2) by (simp_all add: bracketFree_def gc)
  have s1: "?src = X @ (N @ g) @ CHR ''['' # (c @ '']'' @ specifiers gs @ Z)"
    by (simp add: bracketed_def gc)
  have start: "getLocationUntil ?src Loc (CHR ''['') = Loc + length (N @ g)"
    unfolding s1 using Cons.prems(3) g by (rule getLocationUntil_skip)
  have s2: "?src = (X @ N @ g) @ (CHR ''['' # c) @ CHR '']'' # (specifiers gs @ Z)"
    by (simp add: bracketed_def gc)
  have stop: "getLocationUntil ?src (Loc + length (N @ g)) (CHR '']'') =
      Loc + length (N @ g) + length (CHR ''['' # c)"
    unfolding s2 by (rule getLocationUntil_skip) (use Cons.prems(3) c in simp_all)
  have s3: "?src = (X @ N @ g @ CHR ''['' # c) @ '']'' @ specifiers gs @ Z"
    by (simp add: gc bracketed_def)
  have rest: "getBracketLocPairs ?src (Loc + length N + length g + length c + 1) (length gs) =
      specifierSpans (Loc + length N + length g + length c + 1 + length '']'') gs"
    unfolding s3 by (rule Cons.IH) (use Cons.prems in simp_all)
  show ?case
    using start stop rest by (simp add: Let_def add.assoc gc)
qed

lemma decl_edit:
  assumes buf: "buf = bP @ initialBuffer (bracketed csec @ glast @ bracketed clast) @ bZ"
    "length bP = P"
  shows "concat (RemoveText buf
            (P + length csec + 2 + length glast, P + length csec + 2 + length glast + length clast + 1)) =
           concat bP @ bracketed csec @ glast @ concat bZ"
    and "concat (ReplaceText
            (RemoveText buf
               (P + length csec + 2 + length glast,
                P + length csec + 2 + length glast + length clast + 1))
            (P + 1, P + length csec + 1 - 1) NewStr) =
           concat bP @ bracketed NewStr @ glast @ concat bZ"
proof -
  let ?Last = "(P + length csec + 2 + length glast, P + length csec + 2 + length glast + length clast + 1)"
  have b1: "buf = (bP @ initialBuffer (bracketed csec @ glast)) @ initialBuffer (bracketed clast) @ bZ"
    by (simp add: buf)
  have "RemoveText buf ?Last =
      (bP @ initialBuffer (bracketed csec @ glast)) @
      replicate (length (initialBuffer (bracketed clast))) [] @ bZ"
    by (subst b1, rule RemoveText_mid) (simp_all add: getRangeSize_def buf(2))
  then have rem: "RemoveText buf ?Last =
      bP @ initialBuffer (bracketed csec) @ initialBuffer glast @ replicate (length clast + 2) [] @ bZ"
    by simp
  show "concat (RemoveText buf ?Last) = concat bP @ bracketed csec @ glast @ concat bZ"
    unfolding rem by simp
  show "concat (ReplaceText (RemoveText buf ?Last) (P + 1, P + length csec + 1 - 1) NewStr) =
           concat bP @ bracketed NewStr @ glast @ concat bZ"
  proof (cases "csec = []")
    case True
    have r1: "RemoveText buf ?Last =
        (bP @ initialBuffer ''['') @
        '']'' # (initialBuffer glast @ replicate (length clast + 2) [] @ bZ)"
      unfolding rem by (simp add: True bracketed_def)
    have "ReplaceText (RemoveText buf ?Last) (P + 1, P + length csec + 1 - 1) NewStr =
        (bP @ initialBuffer ''['') @
        (NewStr @ '']'') # (initialBuffer glast @ replicate (length clast + 2) [] @ bZ)"
      by (subst r1, rule ReplaceText_insert) (simp_all add: getRangeSize_def buf(2) True)
    then show ?thesis by (simp add: bracketed_def)
  next
    case False
    have r1: "RemoveText buf ?Last =
        (bP @ initialBuffer ''['') @ initialBuffer csec @
        (initialBuffer '']'' @ initialBuffer glast @ replicate (length clast + 2) [] @ bZ)"
      unfolding rem by (simp add: bracketed_def)
    have "ReplaceText (RemoveText buf ?Last) (P + 1, P + length csec + 1 - 1) NewStr =
        (bP @ initialBuffer ''['') @ [NewStr] @ replicate (length (initialBuffer csec) - 1) [] @
        (initialBuffer '']'' @ initialBuffer glast @ replicate (length clast + 2) [] @ bZ)"
      by (subst r1, rule ReplaceText_mid) (use False in \<open>simp_all add: getRangeSize_def buf(2)\<close>)
    then show ?thesis by (simp add: bracketed_def)
  qed
qed

text \<open>
  The product of two extents is computed in \<^verbatim>\<open>unsigned\<close> arithmetic; its text is the one
  of the product of the numbers whenever that fits.
\<close>

lemma unsigned_product_text:
  "unat d * unat dk < 2 ^ 32 \<Longrightarrow> show_unsigned (d * dk) = show_nat (unat d * unat dk)"
  for d dk :: unsigned
  using unat_mult_lem [of d dk] by (simp add: show_unsigned_def)

subsection \<open>The rewriting of the declaration\<close>

text \<open>
  C2. For every target declaration with the dimensions \<open>[d0, ..., dk]\<close> (\<open>k \<ge> 1\<close>, the last
  one fixed) whose product of the two last extents is below \<open>2 ^ 32\<close>, so that it fits the
  \<^verbatim>\<open>unsigned\<close> in which the source computes it, and whose text, from the declared name on,
  has one bracket pair for each dimension, one rewriting of the declaration deletes the
  last bracket pair and replaces the contents of the second-to-last one by the decimal
  text of the product of the two last extents. The other bracket pairs and the text around
  them stay as they are, so exactly one dimension is removed and the declaration keeps the
  form of a name followed by bracket pairs. When the second-to-last dimension is
  incomplete, its bracket stays as it is and no product is computed. The cached extent
  becomes the extent of the second-to-last dimension in the first case and keeps its value
  in the second.

  In the statement each dimension specifier comes with the text in front of its opening
  bracket, which holds no opening bracket: the declared name for the first one, blanks if
  any for the others. The buffer is unedited in the stretch of the specifiers; what stands
  before and behind it may have been edited.
\<close>

theorem declaration_dimensions_merged:
  assumes ty: "getType VD = arrayOf (ds @ [dsec, Fixed dk]) E" "\<not> isArrayType E"
    and src: "src = pre @ specifiers (gs @ [(gsec, csec), (glast, clast)]) @ post"
    and loc: "getLocation VD = length pre"
    and wf: "\<forall>gc\<in>set (gs @ [(gsec, csec), (glast, clast)]).
               CHR ''['' \<notin> set (fst gc) \<and> bracketFree (snd gc)"
    and len: "length gs = length ds"
    and buf: "TheRewriter st =
        bP @ initialBuffer (specifiers (gs @ [(gsec, csec), (glast, clast)])) @ bZ"
      "length bP = length pre"
    and fits: "case dsec of Fixed d \<Rightarrow> unat d * unat dk < 2 ^ 32 | Incomplete \<Rightarrow> True"
  shows "rewrittenText (rewriteOneVarDecl st src VD) =
           Inr (concat bP @
                specifiers (gs @ [(gsec, case dsec of Fixed d \<Rightarrow> show_nat (unat d * unat dk)
                                           | Incomplete \<Rightarrow> csec)]) @
                glast @ concat bZ) \<and>
         map_sum id ArraySz (rewriteOneVarDecl st src VD) =
           Inr (case dsec of Fixed d \<Rightarrow> d | Incomplete \<Rightarrow> ArraySz st)"
proof -
  let ?P = "length pre + length (specifiers gs) + length gsec"
  let ?Sec = "(?P, ?P + length csec + 1)"
  let ?Last = "(?P + length csec + 2 + length glast, ?P + length csec + 2 + length glast + length clast + 1)"
  let ?SecTy = "arrayOf [dsec, Fixed dk] E"
  have tyv: "getArrayDimensionAndTypes (getType VD) =
      layersOf ds ?SecTy @ [?SecTy, ConstantArrayType dk E]"
    by (simp add: ty getArrayDimensionAndTypes_arrayOf layersOf_append)
  have arr: "isArrayType (getType VD)"
    by (simp add: ty isArrayType_arrayOf)
  have "getBracketLocPairs (pre @ [] @ specifiers (gs @ [(gsec, csec), (glast, clast)]) @ post)
          (length pre) (length (gs @ [(gsec, csec), (glast, clast)])) =
        specifierSpans (length pre + length ([]::string)) (gs @ [(gsec, csec), (glast, clast)])"
    using _ wf by (rule getBracketLocPairs_spans) simp_all
  then have bp: "getBracketLocPairs src (getLocation VD) (length ds + 2) =
      specifierSpans (length pre) gs @ [?Sec, ?Last]"
    by (simp add: src loc len specifierSpans_append add.assoc)
  have b: "TheRewriter st =
      (bP @ initialBuffer (specifiers gs @ gsec)) @
      initialBuffer (bracketed csec @ glast @ bracketed clast) @ bZ"
    by (simp add: buf)
  have lenP: "length (bP @ initialBuffer (specifiers gs @ gsec)) = ?P"
    by (simp add: buf(2))
  note edit = decl_edit [OF b lenP]
  have dim: "length (layersOf ds ?SecTy @ [?SecTy, ConstantArrayType dk E]) = length ds + 2"
    by simp
  have rv: "rev (layersOf ds ?SecTy @ [?SecTy, ConstantArrayType dk E]) ! 0 = ConstantArrayType dk E"
    "rev (layersOf ds ?SecTy @ [?SecTy, ConstantArrayType dk E]) ! 1 = ?SecTy"
    "rev (specifierSpans (length pre) gs @ [?Sec, ?Last]) ! 0 = ?Last"
    "rev (specifierSpans (length pre) gs @ [?Sec, ?Last]) ! 1 = ?Sec"
    "length (specifierSpans (length pre) gs @ [?Sec, ?Last]) > 1"
    by simp_all
  show ?thesis
  proof (cases dsec)
    case (Fixed d)
    have "rewriteOneVarDecl st src VD =
        Inr (st\<lparr>ArraySz := d,
                TheRewriter := ReplaceText (RemoveText (TheRewriter st) ?Last)
                  (?P + 1, ?P + length csec + 1 - 1) (show_unsigned (dk * d))\<rparr>)"
      unfolding rewriteOneVarDecl_def Let_def tyv dim bp rv fst_conv snd_conv
      by (simp add: arr Fixed)
    moreover have "show_unsigned (dk * d) = show_nat (unat d * unat dk)"
      using fits unsigned_product_text [of d dk] by (simp add: Fixed mult.commute)
    ultimately show ?thesis
      using edit(2) [of "show_nat (unat d * unat dk)"]
      by (simp add: rewrittenText_def getRewrittenText_def Fixed)
  next
    case Incomplete
    have "rewriteOneVarDecl st src VD = Inr (st\<lparr>TheRewriter := RemoveText (TheRewriter st) ?Last\<rparr>)"
      unfolding rewriteOneVarDecl_def Let_def tyv dim bp rv fst_conv snd_conv
      by (simp add: arr Incomplete)
    then show ?thesis
      using edit(1)
      by (simp add: rewrittenText_def getRewrittenText_def Incomplete)
  qed
qed

theorem declaration_dimensions_merged_witness:
  "rewrittenText (rewriteOneVarDecl stateA0 (SrcText ctxA) declA) =
     Inr ''int a[2][12]; void foo(void) { a[1][2][3]; }'' \<and>
   map_sum id ArraySz (rewriteOneVarDecl stateA0 (SrcText ctxA) declA) = Inr 3 \<and>
   rewrittenText (rewriteOneVarDecl stateB0 (SrcText ctxB) declB) =
     Inr ''int a[]; void foo(void) { a[5][2]; }'' \<and>
   map_sum id ArraySz (rewriteOneVarDecl stateB0 (SrcText ctxB) declB) = Inr 0"
proof -
  let ?postA = "''; void foo(void) { a[1][2][3]; }''"
  let ?postB = "''; void foo(void) { a[5][2]; }''"
  have a1: "getType declA = arrayOf ([Fixed 2] @ [Fixed 3, Fixed 4]) BuiltinType" by code_simp
  have a2: "\<not> isArrayType BuiltinType" by simp
  have a3: "SrcText ctxA = ''int '' @ specifiers ([(''a'', ''2'')] @ [([], ''3''), ([], ''4'')]) @ ?postA"
    by code_simp
  have a4: "getLocation declA = length ''int ''" by code_simp
  have a6: "\<forall>gc\<in>set ([(''a'', ''2'')] @ [([], ''3''), ([], ''4'')]).
      CHR ''['' \<notin> set (fst gc) \<and> bracketFree (snd gc)" by (simp add: bracketFree_def)
  have a7: "length [(''a'', ''2'')] = length [Fixed 2]" by simp
  have a8: "TheRewriter stateA0 =
      initialBuffer ''int '' @
      initialBuffer (specifiers ([(''a'', ''2'')] @ [([], ''3''), ([], ''4'')])) @
      initialBuffer ?postA" by code_simp
  have a9: "length (initialBuffer ''int '') = length ''int ''" by code_simp
  have a10: "case Fixed 3 of Fixed d \<Rightarrow> unat d * unat (4::unsigned) < 2 ^ 32 | Incomplete \<Rightarrow> True"
    by simp
  have a11: "show_nat (3 * 4) = ''12''" "ArraySz stateA0 = 0" by code_simp+
  have b1: "getType declB = arrayOf ([] @ [Incomplete, Fixed 3]) BuiltinType" by code_simp
  have b3: "SrcText ctxB = ''int '' @ specifiers ([] @ [(''a'', []), ([], ''3'')]) @ ?postB"
    by code_simp
  have b4: "getLocation declB = length ''int ''" by code_simp
  have b6: "\<forall>gc\<in>set ([] @ [(''a'', []), ([], ''3'')]).
      CHR ''['' \<notin> set (fst gc) \<and> bracketFree (snd gc)" by (simp add: bracketFree_def)
  have b7: "length ([]::(string \<times> string) list) = length ([]::Dimension list)" by simp
  have b8: "TheRewriter stateB0 =
      initialBuffer ''int '' @ initialBuffer (specifiers ([] @ [(''a'', []), ([], ''3'')])) @
      initialBuffer ?postB" by code_simp
  have b10: "case Incomplete of Fixed d \<Rightarrow> unat d * unat (3::unsigned) < 2 ^ 32 | Incomplete \<Rightarrow> True"
    by simp
  have b9: "ArraySz stateB0 = 0" by code_simp
  show ?thesis
    using declaration_dimensions_merged [OF a1 a2 a3 a4 a6 a7 a8 a9 a10]
      declaration_dimensions_merged [OF b1 a2 b3 b4 b6 b7 b8 a9 b10] a11 b9
    by (simp add: bracketed_def)
qed

text \<open>
  The product is computed in \<^verbatim>\<open>unsigned\<close> arithmetic and nothing checks that it fits:
  for \<^verbatim>\<open>char a[65536][65536];\<close> the pass writes \<^verbatim>\<open>char a[0];\<close>, not the product
  4294967296.
\<close>

lemma product_text_4294967296:
  "show_nat (unat (65536::unsigned) * unat (65536::unsigned)) = ''4294967296''"
  by (simp add: show_nat.simps digit_char_def)

theorem product_beyond_unsigned:
  "rewrittenText (runPass 1 0 ctxH) = Inr ''char a[0];'' \<and>
   show_nat (unat (65536::unsigned) * unat (65536::unsigned)) = ''4294967296'' \<and>
   rewrittenText (runPass 1 0 ctxH) \<noteq> Inr ''char a[4294967296];''"
proof -
  have "rewrittenText (runPass 1 0 ctxH) = Inr ''char a[0];''" by code_simp
  then show ?thesis using product_text_4294967296 by simp
qed

subsection \<open>The cached extent during the traversal\<close>

text \<open>
  Only the rewriting of a declaration of the target assigns the cached extent: the
  rewriting of subscripts and the visit of any other declaration leave it alone.
\<close>

lemma rewriteSubscriptExpr_keeps:
  "rewriteSubscriptExpr st src IdxExprs = Inr st1 \<Longrightarrow>
   ArraySz st1 = ArraySz st \<and> TheVarDecl st1 = TheVarDecl st"
  by (auto simp: rewriteSubscriptExpr_def Let_def split: if_splits sum.splits)

lemma handleOneArraySubscriptExpr_keeps:
  "handleOneArraySubscriptExpr st src ASE = Inr st1 \<Longrightarrow>
   ArraySz st1 = ArraySz st \<and> TheVarDecl st1 = TheVarDecl st"
  by (auto simp: handleOneArraySubscriptExpr_def Let_def
      split: if_splits option.splits Expr.splits ValueDecl.splits prod.splits
      dest: rewriteSubscriptExpr_keeps)

lemma VisitArraySubscriptExprs_keeps:
  "VisitArraySubscriptExprs st src ASEs = Inr st1 \<Longrightarrow>
   ArraySz st1 = ArraySz st \<and> TheVarDecl st1 = TheVarDecl st"
proof (induction ASEs arbitrary: st)
  case Nil
  then show ?case by simp
next
  case (Cons ASE ASEs)
  then obtain st2 where h: "handleOneArraySubscriptExpr st src ASE = Inr st2"
    and r: "VisitArraySubscriptExprs st2 src ASEs = Inr st1"
    by (auto split: sum.splits)
  from Cons.IH [OF r] handleOneArraySubscriptExpr_keeps [OF h] show ?case by simp
qed

lemma TraverseDecl_keeps:
  "TraverseDecl st src D = Inr st1 \<Longrightarrow> \<forall>N\<in>set D. \<not> declaresTarget (TheVarDecl st) N \<Longrightarrow>
   ArraySz st1 = ArraySz st \<and> TheVarDecl st1 = TheVarDecl st"
proof (induction st src D rule: TraverseDecl.induct)
  case (1 st src)
  then show ?case by simp
next
  case (2 st src VD D)
  from "2.prems"(2) have v: "VisitVarDecl st src VD = Inr st"
    by (simp add: VisitVarDecl_def)
  with "2.prems" have "TraverseDecl st src D = Inr st1" by simp
  with "2.IH" [OF v] "2.prems"(2) show ?case by simp
next
  case (3 st src E D)
  then obtain st2 where h: "VisitArraySubscriptExprs st src (subscriptNodes E) = Inr st2"
    and r: "TraverseDecl st2 src D = Inr st1"
    by (auto split: sum.splits)
  note k = VisitArraySubscriptExprs_keeps [OF h]
  from "3.IH" [OF h r] "3.prems"(2) k show ?case by simp
qed

subsection \<open>The rewriting of a chain with literal indices\<close>

text \<open>
  C1. For every subscript chain on the target whose two trailing index expressions are
  literal integer or character-literal expressions, and which the traversal rewrites after
  it has rewritten a declaration of the target with the dimensions \<open>[..., d, dk]\<close>, both
  fixed, and has visited no other declaration of the target since, the last subscript is
  removed and the second-to-last index is replaced by the decimal text of
  \<open>newIdx = SecIdx * d + LastIdx\<close>, computed in \<^verbatim>\<open>int\<close> arithmetic; the text in front of the
  second-to-last index, with the leading subscripts, and its closing bracket are kept. The
  factor \<open>d\<close> is the original extent of the second-to-last dimension of that declaration:
  this is the value that the rewriting of the declaration has cached.

  In the statement the buffer is unedited in the stretch of the two trailing subscripts;
  what stands before and behind it may have been edited.
\<close>

theorem literal_indices_linearised:
  assumes decl: "rewriteOneVarDecl st0 src VD = Inr st1"
    and ty: "getType VD = arrayOf (ds @ [Fixed d, Fixed dk]) E" "\<not> isArrayType E"
    and later: "TraverseDecl st1 src D = Inr st"
      "\<forall>N\<in>set D. \<not> declaresTarget (TheVarDecl st1) N"
    and src: "src = A @ s @ B @ CHR ''['' # p @ l @ q @ CHR '']'' # Z"
    and buf: "TheRewriter st = bA @ initialBuffer (s @ B @ CHR ''['' # p @ l @ q @ '']'') @ bZ"
      "length bA = length A"
    and rs: "getSourceRange SecE = (length A, length A + length s - 1)" "s \<noteq> []"
    and rl: "getSourceRange LastE =
        (length A + length s + length B + 1 + length p,
         length A + length s + length B + 1 + length p + length l - 1)"
      "l \<noteq> []"
    and pad: "CHR ''['' \<notin> set (p @ [hd l])" "CHR '']'' \<notin> set q"
    and lit: "isIntegerExpr LastE" "isIntegerExpr SecE"
    and idx: "getIndexAsInteger LastE = Inr LastIdx" "getIndexAsInteger SecE = Inr SecIdx"
  shows "ArraySz st = d \<and>
         rewrittenText (rewriteSubscriptExpr st src (LastE # SecE # Rest)) =
           Inr (concat bA @ show_cint (SecIdx * d + LastIdx) @ B @ concat bZ)"
proof -
  have "ArraySz st1 = d"
    using decl ty by (rule rewriteOneVarDecl_ArraySz)
  with TraverseDecl_keeps [OF later] have d: "ArraySz st = d" by simp
  have "rewriteSubscriptExpr st src (LastE # SecE # Rest) =
      Inr (st\<lparr>TheRewriter :=
        replaceExpr (removeArraySubscriptExpr src (TheRewriter st) LastE) SecE
          (show_cint (SecIdx * d + LastIdx))\<rparr>)"
    by (simp add: rewriteSubscriptExpr_def lit idx d Let_def)
  then show ?thesis
    using subscript_edit(1) [OF src buf rs rl pad] d
    by (simp add: rewrittenText_def getRewrittenText_def)
qed

theorem literal_indices_linearised_witness:
  "ArraySz stateI1 = 3 \<and>
   rewrittenText (rewriteSubscriptExpr stateI1 (SrcText ctxI)
       [IntegerLiteral (48, 48) 3, IntegerLiteral (45, 45) 2, IntegerLiteral (42, 42) 1]) =
     Inr ''int a[2][12]; int b; void foo(void) { a[1][9]; }''"
proof -
  let ?bA = "take 45 (TheRewriter stateI1)" and ?bZ = "drop 50 (TheRewriter stateI1)"
  let ?A = "''int a[2][3][4]; int b; void foo(void) { a[1][''"
  have h0: "\<not> isl (rewriteOneVarDecl stateI0 (SrcText ctxI) declA)" by code_simp
  have h1: "rewriteOneVarDecl stateI0 (SrcText ctxI) declA = Inr stateI1"
    using h0 by (simp add: stateI1_def)
  have h2: "getType declA = arrayOf ([Fixed 2] @ [Fixed 3, Fixed 4]) BuiltinType" by code_simp
  have h3: "\<not> isArrayType BuiltinType" by simp
  have t1: "TraverseDecl stateI1 (SrcText ctxI) [VarDeclNode declb] = Inr stateI1" by code_simp
  have t2: "\<forall>N\<in>set [VarDeclNode declb]. \<not> declaresTarget (TheVarDecl stateI1) N" by code_simp
  have h4: "SrcText ctxI = ?A @ ''2'' @ '']'' @ CHR ''['' # [] @ ''3'' @ [] @ CHR '']'' # ''; }''"
    by code_simp
  have h5: "TheRewriter stateI1 =
      ?bA @ initialBuffer (''2'' @ '']'' @ CHR ''['' # [] @ ''3'' @ [] @ '']'') @ ?bZ"
    by code_simp
  have h6: "length ?bA = length ?A" by code_simp
  have h7: "getSourceRange (IntegerLiteral (45, 45) 2) = (length ?A, length ?A + length ''2'' - 1)"
    by simp
  have h8: "getSourceRange (IntegerLiteral (48, 48) 3) =
      (length ?A + length ''2'' + length '']'' + 1 + length ([]::string),
       length ?A + length ''2'' + length '']'' + 1 + length ([]::string) + length ''3'' - 1)"
    by simp
  have h9: "CHR ''['' \<notin> set ([] @ [hd ''3''])" "CHR '']'' \<notin> set []" by simp_all
  have h10: "isIntegerExpr (IntegerLiteral (48, 48) 3)" "isIntegerExpr (IntegerLiteral (45, 45) 2)"
    by (simp_all add: isIntegerExpr_def)
  have h11: "getIndexAsInteger (IntegerLiteral (48, 48) 3) = Inr 3"
    "getIndexAsInteger (IntegerLiteral (45, 45) 2) = Inr 2"
    by (simp_all add: getIndexAsInteger_def)
  have c1: "concat ?bA = ''int a[2][12]; int b; void foo(void) { a[1][''" by code_simp
  have c2: "concat ?bZ = ''; }''" by code_simp
  have c3: "show_cint (2 * 3 + 3) = ''9''" by code_simp
  show ?thesis
    using literal_indices_linearised [OF h1 h2 h3 t1 t2 h4 h5 h6 h7 _ h8 _ h9 h10 h11,
        of "[IntegerLiteral (42, 42) 1]"] c1 c2 c3
    by simp
qed

text \<open>
  The factor is not the extent of the removed last dimension: in the example of the
  description the cache holds 3, and the chain \<^verbatim>\<open>a[1][2][3]\<close> does not become
  \<^verbatim>\<open>a[1][11]\<close>, which is \<open>2 * 4 + 3\<close>. And a chain that the traversal reaches before the
  declaration of the target is folded with the value \<open>Sz0\<close> that the cache had before the
  pass, whatever the extents are.
\<close>

lemma chain_before_declaration:
  "rewrittenText (runPass 1 Sz0 ctxG) =
     Inr (''struct S { int f() { return a[1]['' @ show_cint (2 * Sz0 + 3) @
          '']; } static int a[2][12]; };'')"
  by code_simp

theorem trailing_extent_not_used:
  "map_sum id ArraySz (runPass 1 0 ctxA) = Inr 3 \<and>
   show_cint (2 * 4 + 3) = ''11'' \<and>
   rewrittenText (runPass 1 0 ctxA) \<noteq> Inr ''int a[2][12]; void foo(void) { a[1][11]; }'' \<and>
   (\<forall>Sz0. rewrittenText (runPass 1 Sz0 ctxG) =
     Inr (''struct S { int f() { return a[1]['' @ show_cint (2 * Sz0 + 3) @
          '']; } static int a[2][12]; };'')) \<and>
   rewrittenText (runPass 1 0 ctxG) =
     Inr ''struct S { int f() { return a[1][3]; } static int a[2][12]; };''"
proof -
  have "map_sum id ArraySz (runPass 1 0 ctxA) = Inr 3 \<and>
   show_cint (2 * 4 + 3) = ''11'' \<and>
   rewrittenText (runPass 1 0 ctxA) \<noteq> Inr ''int a[2][12]; void foo(void) { a[1][11]; }'' \<and>
   rewrittenText (runPass 1 0 ctxG) =
     Inr ''struct S { int f() { return a[1][3]; } static int a[2][12]; };''"
    by code_simp
  with chain_before_declaration show ?thesis by simp
qed

subsection \<open>The rewriting of a chain with other indices\<close>

text \<open>
  C7. For every subscript chain in which the last or the second-to-last index expression
  is no literal, and which the traversal rewrites after it has rewritten a declaration of
  the target with the dimensions \<open>[..., d, dk]\<close>, both fixed, and has visited no other
  declaration of the target since, the last subscript is removed and the second-to-last
  index \<open>s\<close> is replaced by the text \<^verbatim>\<open>(s)*d+l\<close>, where \<open>l\<close> is the text of the last index
  and \<open>d\<close> the decimal text of the cached extent, the original extent of the
  second-to-last dimension of that declaration. The text of the second-to-last index is
  put in parentheses.

  In the statement the buffer is unedited in the stretch of the two trailing subscripts;
  what stands before and behind it may have been edited.
\<close>

theorem nonliteral_indices_synthesised:
  assumes decl: "rewriteOneVarDecl st0 src VD = Inr st1"
    and ty: "getType VD = arrayOf (ds @ [Fixed d, Fixed dk]) E" "\<not> isArrayType E"
    and later: "TraverseDecl st1 src D = Inr st"
      "\<forall>N\<in>set D. \<not> declaresTarget (TheVarDecl st1) N"
    and src: "src = A @ s @ B @ CHR ''['' # p @ l @ q @ CHR '']'' # Z"
    and buf: "TheRewriter st = bA @ initialBuffer (s @ B @ CHR ''['' # p @ l @ q @ '']'') @ bZ"
      "length bA = length A"
    and rs: "getSourceRange SecE = (length A, length A + length s - 1)" "s \<noteq> []"
    and rl: "getSourceRange LastE =
        (length A + length s + length B + 1 + length p,
         length A + length s + length B + 1 + length p + length l - 1)"
      "l \<noteq> []"
    and pad: "CHR ''['' \<notin> set (p @ [hd l])" "CHR '']'' \<notin> set q"
    and nonlit: "\<not> (isIntegerExpr LastE \<and> isIntegerExpr SecE)"
  shows "rewrittenText (rewriteSubscriptExpr st src (LastE # SecE # Rest)) =
           Inr (concat bA @ (''('' @ s @ '')*'' @ show_unsigned d @ ''+'' @ l) @ B @ concat bZ)"
proof -
  have "ArraySz st1 = d"
    using decl ty by (rule rewriteOneVarDecl_ArraySz)
  with TraverseDecl_keeps [OF later] have d: "ArraySz st = d" by simp
  note e = subscript_edit [OF src buf rs rl pad]
  have "rewriteSubscriptExpr st src (LastE # SecE # Rest) =
      Inr (st\<lparr>TheRewriter :=
        replaceExpr (removeArraySubscriptExpr src (TheRewriter st) LastE) SecE
          (''('' @ s @ '')*'' @ show_unsigned d @ ''+'' @ l)\<rparr>)"
    using nonlit by (auto simp: rewriteSubscriptExpr_def d e(2,3) Let_def)
  then show ?thesis
    using e(1) by (simp add: rewrittenText_def getRewrittenText_def)
qed

theorem nonliteral_indices_synthesised_witness:
  "rewrittenText (rewriteSubscriptExpr stateK1 (SrcText ctxK)
       [OtherExpr (60, 64) BuiltinType
          [CastExpr (60, 60) OtherCast (DeclRefExpr (60, 60) OtherValueDecl), IntegerLiteral (64, 64) 1],
        OtherExpr (53, 57) BuiltinType
          [CastExpr (53, 53) OtherCast (DeclRefExpr (53, 53) OtherValueDecl), IntegerLiteral (57, 57) 1],
        IntegerLiteral (50, 50) 1]) =
     Inr ''int a[2][12]; int b; void foo(int i, int j) { a[1][(i + 1)*3+j & 1]; }''"
proof -
  let ?bA = "take 53 (TheRewriter stateK1)" and ?bZ = "drop 66 (TheRewriter stateK1)"
  let ?A = "''int a[2][3][4]; int b; void foo(int i, int j) { a[1][''"
  let ?LastE = "OtherExpr (60, 64) BuiltinType
          [CastExpr (60, 60) OtherCast (DeclRefExpr (60, 60) OtherValueDecl), IntegerLiteral (64, 64) 1]"
  let ?SecE = "OtherExpr (53, 57) BuiltinType
          [CastExpr (53, 53) OtherCast (DeclRefExpr (53, 53) OtherValueDecl), IntegerLiteral (57, 57) 1]"
  have h0: "\<not> isl (rewriteOneVarDecl stateK0 (SrcText ctxK) declA)" by code_simp
  have h1: "rewriteOneVarDecl stateK0 (SrcText ctxK) declA = Inr stateK1"
    using h0 by (simp add: stateK1_def)
  have h2: "getType declA = arrayOf ([Fixed 2] @ [Fixed 3, Fixed 4]) BuiltinType" by code_simp
  have h3: "\<not> isArrayType BuiltinType" by simp
  have t1: "TraverseDecl stateK1 (SrcText ctxK) [VarDeclNode declb] = Inr stateK1" by code_simp
  have t2: "\<forall>N\<in>set [VarDeclNode declb]. \<not> declaresTarget (TheVarDecl stateK1) N" by code_simp
  have h4: "SrcText ctxK =
      ?A @ ''i + 1'' @ '']'' @ CHR ''['' # [] @ ''j & 1'' @ [] @ CHR '']'' # ''; }''"
    by code_simp
  have h5: "TheRewriter stateK1 =
      ?bA @ initialBuffer (''i + 1'' @ '']'' @ CHR ''['' # [] @ ''j & 1'' @ [] @ '']'') @ ?bZ"
    by code_simp
  have h6: "length ?bA = length ?A" by code_simp
  have h7: "getSourceRange ?SecE = (length ?A, length ?A + length ''i + 1'' - 1)"
    by simp
  have h8: "getSourceRange ?LastE =
      (length ?A + length ''i + 1'' + length '']'' + 1 + length ([]::string),
       length ?A + length ''i + 1'' + length '']'' + 1 + length ([]::string) + length ''j & 1'' - 1)"
    by simp
  have h9: "CHR ''['' \<notin> set ([] @ [hd ''j & 1''])" "CHR '']'' \<notin> set []" by simp_all
  have h10: "\<not> (isIntegerExpr ?LastE \<and> isIntegerExpr ?SecE)"
    by (simp add: isIntegerExpr_def)
  have c1: "concat ?bA = ''int a[2][12]; int b; void foo(int i, int j) { a[1][''" by code_simp
  have c2: "concat ?bZ = ''; }''" by code_simp
  have c3: "show_unsigned 3 = ''3''" by code_simp
  show ?thesis
    using nonliteral_indices_synthesised [OF h1 h2 h3 t1 t2 h4 h5 h6 h7 _ h8 _ h9 h10,
        of "[IntegerLiteral (50, 50) 1]"] c1 c2 c3
    by simp
qed

text \<open>
  The extent in the new text is not the one of the removed last dimension, which is 4 in
  the example. The example also shows a last index, \<^verbatim>\<open>j & 1\<close>, that is appended without
  parentheses. And a chain that the traversal reaches before the declaration of the
  target gets the value that the cache had before the pass, here 0 and 7.
\<close>

theorem synthesised_extent_not_trailing:
  "rewrittenText (runPass 1 0 ctxC) =
     Inr ''int a[2][12]; void foo(int i, int j) { a[1][(i + 1)*3+j & 1]; }'' \<and>
   rewrittenText (runPass 1 0 ctxC) \<noteq>
     Inr ''int a[2][12]; void foo(int i, int j) { a[1][(i + 1)*4+j & 1]; }'' \<and>
   rewrittenText (runPass 1 0 ctxJ) =
     Inr ''struct S { int f(int i) { return a[1][(i)*0+3]; } static int a[2][12]; };'' \<and>
   rewrittenText (runPass 1 7 ctxJ) =
     Inr ''struct S { int f(int i) { return a[1][(i)*7+3]; } static int a[2][12]; };''"
  by code_simp

subsection \<open>Literals under parentheses and casts\<close>

text \<open>The test of the source for a literal index accepts the literals in the wide sense.\<close>

lemma isIntegerExpr_wrapped: "isIntegerExpr E = isWrappedLiteral E"
  by (induction E rule: isWrappedLiteral.induct) (simp_all add: isIntegerExpr_def)

text \<open>
  C10. The detection of literals ignores parentheses and casts around the two trailing
  index expressions: when both are literals under any parentheses and casts, the chain is
  folded. The new index is the decimal text of \<open>SecVal * ArraySz + LastVal\<close>, where the two
  values come from the constant evaluation of the full index expressions (and fit an
  \<^verbatim>\<open>int\<close>); no arithmetic expression is synthesised.
\<close>

theorem wrapped_literals_folded:
  assumes "isWrappedLiteral LastE" and "isWrappedLiteral SecE"
    and "EvaluateAsInt LastE = Some LastVal" and "EvaluateAsInt SecE = Some SecVal"
    and "- (2 ^ 31) \<le> LastVal" "LastVal < 2 ^ 31" "- (2 ^ 31) \<le> SecVal" "SecVal < 2 ^ 31"
  shows "rewriteSubscriptExpr st src (LastE # SecE # Rest) =
           Inr (st\<lparr>TheRewriter :=
                  replaceExpr (removeArraySubscriptExpr src (TheRewriter st) LastE) SecE
                    (show_cint (word_of_int SecVal * ArraySz st + word_of_int LastVal))\<rparr>)"
  using assms
  by (simp add: rewriteSubscriptExpr_def isIntegerExpr_wrapped getIndexAsInteger_def Let_def)

theorem wrapped_literals_folded_witness:
  "isWrappedLiteral (ParenExpr (38, 40) (IntegerLiteral (39, 39) 2)) \<and>
   isWrappedLiteral (CastExpr (43, 49) (IntegralCast True 8) (IntegerLiteral (49, 49) 3)) \<and>
   rewrittenText (rewriteSubscriptExpr stateF1 (SrcText ctxF)
       [CastExpr (43, 49) (IntegralCast True 8) (IntegerLiteral (49, 49) 3),
        ParenExpr (38, 40) (IntegerLiteral (39, 39) 2), IntegerLiteral (35, 35) 1]) =
     Inr ''int a[2][12]; void foo(void) { a[1][9]; }''"
proof -
  let ?LastE = "CastExpr (43, 49) (IntegralCast True 8) (IntegerLiteral (49, 49) 3)"
  let ?SecE = "ParenExpr (38, 40) (IntegerLiteral (39, 39) 2)"
  have h1: "isWrappedLiteral ?LastE" "isWrappedLiteral ?SecE" by simp_all
  have h2: "EvaluateAsInt ?LastE = Some 3" "EvaluateAsInt ?SecE = Some 2"
    by (simp_all add: wrapInt_def)
  have h3: "- (2 ^ 31) \<le> (3::int)" "(3::int) < 2 ^ 31" "- (2 ^ 31) \<le> (2::int)" "(2::int) < 2 ^ 31"
    by simp_all
  have c: "rewrittenText (Inr (stateF1\<lparr>TheRewriter :=
      replaceExpr (removeArraySubscriptExpr (SrcText ctxF) (TheRewriter stateF1) ?LastE) ?SecE
        (show_cint (word_of_int 2 * ArraySz stateF1 + word_of_int 3))\<rparr>)) =
      Inr ''int a[2][12]; void foo(void) { a[1][9]; }''"
    by code_simp
  show ?thesis
    using wrapped_literals_folded [OF h1 h2 h3, of stateF1 "SrcText ctxF" "[IntegerLiteral (35, 35) 1]"] c h1
    by simp
qed

text \<open>
  The cast takes part in the value: \<^verbatim>\<open>(char)300\<close> is a literal index of value 44. The
  whole pass folds \<^verbatim>\<open>a[1][(2)][(char)3]\<close> to \<^verbatim>\<open>a[1][9]\<close>.
\<close>

lemma wrapped_literal_examples:
  "isIntegerExpr (ParenExpr (38, 40) (IntegerLiteral (39, 39) 2)) \<and>
   isIntegerExpr (CastExpr (43, 49) (IntegralCast True 8) (IntegerLiteral (49, 49) 3)) \<and>
   EvaluateAsInt (CastExpr (43, 49) (IntegralCast True 8) (IntegerLiteral (49, 49) 300)) = Some 44 \<and>
   rewrittenText (runPass 1 Sz0 ctxF) = Inr ''int a[2][12]; void foo(void) { a[1][9]; }''"
  by code_simp

text \<open>
  Two literals in the wide sense never lead to a synthesised expression: the rewriting
  aborts in an assertion of \<open>getIndexAsInteger\<close>, or it writes one number.
\<close>

lemma wrapped_literals_never_synthesised:
  assumes "isWrappedLiteral LastE" and "isWrappedLiteral SecE"
  shows "case rewriteSubscriptExpr st src (LastE # SecE # Rest) of
           Inl a \<Rightarrow> True
         | Inr st1 \<Rightarrow>
             \<exists>NewIdx. TheRewriter st1 =
               replaceExpr (removeArraySubscriptExpr src (TheRewriter st) LastE) SecE (show_cint NewIdx)"
  using assms
  by (auto simp: rewriteSubscriptExpr_def isIntegerExpr_wrapped Let_def split: sum.splits)

subsection \<open>The chains that are rewritten\<close>

lemma walkSubscripts_chain:
  "fst (walkSubscripts e) = chainBase e \<and> length (snd (walkSubscripts e)) = length (chainNodes e)"
  by (induction e rule: walkSubscripts.induct) (simp_all add: case_prod_beta Let_def)

text \<open>
  C8. A subscript node is rewritten only when its type is scalar, struct or union, its
  chain has at least two index expressions, and the base of the chain is a direct
  reference to a variable whose canonical declaration is the target. On every node that
  fails one of these conditions (a chain that still denotes an array, a chain of one
  index, a base that is no name, a chain on another variable) the handler returns the
  state as it is, and so the text as it is.
\<close>

theorem handleOneArraySubscriptExpr_preconditions:
  "handleOneArraySubscriptExpr st src (ArraySubscriptExpr r T b i) =
     (if rewritePreconditions st (ArraySubscriptExpr r T b i)
      then rewriteSubscriptExpr st src (snd (getBaseExprAndIdxExprs (ArraySubscriptExpr r T b i)))
      else Inr st)"
proof -
  obtain B idxs where w: "walkSubscripts b = (B, idxs)" by (cases "walkSubscripts b")
  have B: "chainBase b = B" and len: "length idxs = length (chainNodes b)"
    using walkSubscripts_chain [of b] w by simp_all
  show ?thesis
  proof (cases B)
    case (DeclRefExpr r' d)
    then show ?thesis
      by (cases d) (auto simp: handleOneArraySubscriptExpr_def rewritePreconditions_def w B len Let_def Suc_le_eq)
  qed (auto simp: handleOneArraySubscriptExpr_def rewritePreconditions_def w B len Let_def Suc_le_eq)
qed

subsection \<open>One rewrite for a chain\<close>

lemma subscriptChain_snoc:
  "subscriptChain b (idxs @ [i]) =
     ArraySubscriptExpr (fst (getSourceRange (subscriptChain b idxs)), snd (getSourceRange i) + 1)
       (getElementType (getTypeOfExpr (subscriptChain b idxs)))
       (CastExpr (getSourceRange (subscriptChain b idxs)) OtherCast (subscriptChain b idxs)) i"
  by (induction idxs arbitrary: b) simp_all

lemma getTypeOfExpr_subscriptChain:
  "getTypeOfExpr (subscriptChain b idxs) = (getElementType ^^ length idxs) (getTypeOfExpr b)"
  by (induction idxs rule: rev_induct) (simp_all add: subscriptChain_snoc)

lemma walkSubscripts_subscriptChain:
  "walkSubscripts (subscriptChain b idxs) = (fst (walkSubscripts b), rev idxs @ snd (walkSubscripts b))"
  by (induction idxs rule: rev_induct) (simp_all add: subscriptChain_snoc case_prod_beta)

lemma chainNodes_subscriptChain:
  "n \<in> set (chainNodes (subscriptChain b idxs)) \<Longrightarrow>
   n \<in> set (chainNodes b) \<or>
   (\<exists>k. 0 < k \<and> k \<le> length idxs \<and> n = subscriptChain b (take k idxs))"
proof (induction idxs rule: rev_induct)
  case Nil
  then show ?case by simp
next
  case (snoc i idxs)
  from snoc.prems have "n = subscriptChain b (idxs @ [i]) \<or> n \<in> set (chainNodes (subscriptChain b idxs))"
    by (simp add: subscriptChain_snoc)
  then show ?case
  proof
    assume "n = subscriptChain b (idxs @ [i])"
    then have "0 < length (idxs @ [i]) \<and> length (idxs @ [i]) \<le> length (idxs @ [i]) \<and>
        n = subscriptChain b (take (length (idxs @ [i])) (idxs @ [i]))"
      by simp
    then show ?thesis by blast
  next
    assume "n \<in> set (chainNodes (subscriptChain b idxs))"
    from snoc.IH [OF this] show ?thesis
    proof
      assume "n \<in> set (chainNodes b)" then show ?thesis ..
    next
      assume "\<exists>k. 0 < k \<and> k \<le> length idxs \<and> n = subscriptChain b (take k idxs)"
      then obtain k where "0 < k" "k \<le> length idxs" "n = subscriptChain b (take k idxs)" by blast
      then have "0 < k \<and> k \<le> length (idxs @ [i]) \<and> n = subscriptChain b (take k (idxs @ [i]))"
        by simp
      then show ?thesis by blast
    qed
  qed
qed

lemma getElementType_arrayOf:
  "k \<le> length ds \<Longrightarrow> (getElementType ^^ k) (arrayOf ds E) = arrayOf (drop k ds) E"
proof (induction k arbitrary: ds)
  case 0
  then show ?case by simp
next
  case (Suc k)
  then obtain d ds' where ds: "ds = d # ds'" by (cases ds) auto
  have "getElementType (arrayOf (d # ds') E) = arrayOf ds' E" by (cases d) simp_all
  then have "(getElementType ^^ Suc k) (arrayOf ds E) = (getElementType ^^ k) (arrayOf ds' E)"
    by (simp only: funpow_Suc_right o_apply ds)
  also have "\<dots> = arrayOf (drop k ds') E"
    using Suc.prems ds by (intro Suc.IH) simp
  finally show ?case by (simp add: ds)
qed

lemma array_not_rewritten:
  "isArrayType (getTypeOfExpr n) \<Longrightarrow> handleOneArraySubscriptExpr st src n = Inr st"
  by (cases "getTypeOfExpr n") (simp_all add: handleOneArraySubscriptExpr_def)

text \<open>
  C9. For a chain on the target that has as many indices as the target has dimensions (at
  least two, over an element type that is scalar, struct or union), the outermost node is
  the first node of the chain and triggers the rewrite; every other node of the chain has
  an array type and is left alone by the handler, in whatever state it is visited. So the
  chain is rewritten exactly once.
\<close>

theorem full_chain_rewritten_once:
  assumes ty: "getType VD = arrayOf ds E"
    and elem: "isScalarType E \<or> isStructureType E \<or> isUnionType E"
    and dims: "2 \<le> length ds" "length idxs = length ds"
    and target: "TheVarDecl st = Some (getCanonicalDecl VD)"
  shows "hd (chainNodes (subscriptChain (DeclRefExpr r (VarDeclRef VD)) idxs)) =
           subscriptChain (DeclRefExpr r (VarDeclRef VD)) idxs \<and>
         (\<forall>n \<in> set (tl (chainNodes (subscriptChain (DeclRefExpr r (VarDeclRef VD)) idxs))).
            isArrayType (getTypeOfExpr n) \<and> handleOneArraySubscriptExpr st2 src n = Inr st2) \<and>
         handleOneArraySubscriptExpr st src (subscriptChain (DeclRefExpr r (VarDeclRef VD)) idxs) =
           rewriteSubscriptExpr st src (rev idxs)"
proof -
  let ?b = "DeclRefExpr r (VarDeclRef VD)"
  from dims obtain idxs' i where idxs: "idxs = idxs' @ [i]"
    by (cases idxs rule: rev_cases) auto
  let ?inner = "subscriptChain ?b idxs'"
  have chain: "subscriptChain ?b idxs =
      ArraySubscriptExpr (fst (getSourceRange ?inner), snd (getSourceRange i) + 1)
        (getElementType (getTypeOfExpr ?inner)) (CastExpr (getSourceRange ?inner) OtherCast ?inner) i"
    by (simp add: idxs subscriptChain_snoc)
  have T: "getTypeOfExpr (subscriptChain ?b idxs) = E"
    using getElementType_arrayOf [of "length ds" ds E]
    by (simp add: getTypeOfExpr_subscriptChain ty dims)
  have nodes: "chainNodes (subscriptChain ?b idxs) = subscriptChain ?b idxs # chainNodes ?inner"
    by (simp add: chain)
  have inner: "isArrayType (getTypeOfExpr n)" if "n \<in> set (chainNodes ?inner)" for n
  proof -
    from chainNodes_subscriptChain [OF that]
    obtain k where k: "0 < k" "k \<le> length idxs'" "n = subscriptChain ?b (take k idxs')"
      by auto
    have "k < length ds" using k(2) dims(2) idxs by simp
    then have "getTypeOfExpr n = arrayOf (drop k ds) E" "drop k ds \<noteq> []"
      using k getElementType_arrayOf [of k ds E]
      by (simp_all add: getTypeOfExpr_subscriptChain ty min_absorb2)
    then show ?thesis by (simp add: isArrayType_arrayOf)
  qed
  have w: "getBaseExprAndIdxExprs (subscriptChain ?b idxs) = (Some ?b, rev idxs)"
    unfolding chain by (simp add: walkSubscripts_subscriptChain idxs)
  have "handleOneArraySubscriptExpr st src (subscriptChain ?b idxs) = rewriteSubscriptExpr st src (rev idxs)"
    unfolding handleOneArraySubscriptExpr_def T w Let_def
    using elem dims target by auto
  then show ?thesis
    using inner by (simp add: nodes array_not_rewritten)
qed

theorem full_chain_rewritten_once_witness:
  "chainNodes chainA = chainA # tl (chainNodes chainA) \<and> length (chainNodes chainA) = 3 \<and>
   list_all (\<lambda>n. isArrayType (getTypeOfExpr n) \<and>
       handleOneArraySubscriptExpr stateA1 (SrcText ctxA) n = Inr stateA1) (tl (chainNodes chainA)) \<and>
   handleOneArraySubscriptExpr stateA1 (SrcText ctxA) chainA =
     rewriteSubscriptExpr stateA1 (SrcText ctxA)
       [IntegerLiteral (41, 41) 3, IntegerLiteral (38, 38) 2, IntegerLiteral (35, 35) 1]"
proof -
  let ?idxs = "[IntegerLiteral (35, 35) 1, IntegerLiteral (38, 38) 2, IntegerLiteral (41, 41) 3]"
  have c: "subscriptChain (DeclRefExpr (33, 33) (VarDeclRef declA)) ?idxs = chainA"
    by code_simp
  have h1: "getType declA = arrayOf [Fixed 2, Fixed 3, Fixed 4] BuiltinType" by code_simp
  have h2: "isScalarType BuiltinType \<or> isStructureType BuiltinType \<or> isUnionType BuiltinType"
    by simp
  have h3: "2 \<le> length [Fixed 2, Fixed 3, Fixed 4]" "length ?idxs = length [Fixed 2, Fixed 3, Fixed 4]"
    by simp_all
  have h4: "TheVarDecl stateA1 = Some (getCanonicalDecl declA)" by code_simp
  have n: "chainNodes chainA \<noteq> []" "length (chainNodes chainA) = 3" by code_simp+
  note t = full_chain_rewritten_once [where r = "(33, 33)" and ?st2.0 = stateA1
      and src = "SrcText ctxA", OF h1 h2 h3 h4, unfolded c]
  from t have hd: "hd (chainNodes chainA) = chainA"
    and inner: "\<forall>n \<in> set (tl (chainNodes chainA)). isArrayType (getTypeOfExpr n) \<and>
        handleOneArraySubscriptExpr stateA1 (SrcText ctxA) n = Inr stateA1"
    and outer: "handleOneArraySubscriptExpr stateA1 (SrcText ctxA) chainA =
        rewriteSubscriptExpr stateA1 (SrcText ctxA) (rev ?idxs)"
    by blast+
  have "chainNodes chainA = chainA # tl (chainNodes chainA)"
    using hd n(1) by (cases "chainNodes chainA") simp_all
  with inner outer n(2) show ?thesis
    by (simp add: list_all_iff)
qed

text \<open>
  A chain that goes on through a pointer element is rewritten more than once: in
  \<^verbatim>\<open>a[1][2][0]\<close> on \<^verbatim>\<open>int *a[2][3]\<close> the inner node \<^verbatim>\<open>a[1][2]\<close> has a pointer type, which
  is scalar, and the handler rewrites at this node as well as at the outermost one.
\<close>

theorem pointer_elements_rewritten_twice:
  "innerD \<in> set (tl (chainNodes chainD)) \<and>
   \<not> isArrayType (getTypeOfExpr innerD) \<and>
   handleOneArraySubscriptExpr stateD1 (SrcText ctxD) chainD \<noteq> Inr stateD1 \<and>
   handleOneArraySubscriptExpr stateD1 (SrcText ctxD) innerD \<noteq> Inr stateD1 \<and>
   rewrittenText (handleOneArraySubscriptExpr stateD1 (SrcText ctxD) chainD) =
     Inr ''int *a[6]; void foo(void) { a[1][4]; }'' \<and>
   rewrittenText (handleOneArraySubscriptExpr stateD1 (SrcText ctxD) innerD) =
     Inr ''int *a[6]; void foo(void) { a[4][0]; }'' \<and>
   rewrittenText (runPass 1 0 ctxD) = Inr ''int *a[6]; void foo(void) { a[4]; }''"
  by code_simp

end
